theory Spec2Isabelle
  imports Main
begin

section \<open>The GLIR interpreter of vispy.gloo.glir\<close>

text \<open>
  The module executes a list of GLIR commands against a native graphics API. The native API
  is outside the module: the model records every call made on it, in order, and takes the
  answers of the API from an environment that sees the calls made so far.
\<close>

subsection \<open>Values\<close>

text \<open>
  A numpy array as far as the module looks at it: element type and shape. The elements
  themselves are only handed on to the native API.
\<close>

datatype np_dtype =
    np_bool | np_int8 | np_uint8 | np_int16 | np_uint16 | np_int32 | np_uint32
  | np_int64 | np_uint64 | np_float16 | np_float32 | np_float64

record ndarray =
  arr_dtype :: np_dtype
  arr_shape :: "nat list"

fun itemsize :: "np_dtype \<Rightarrow> nat" where
  "itemsize np_bool = 1"
| "itemsize np_int8 = 1"
| "itemsize np_uint8 = 1"
| "itemsize np_int16 = 2"
| "itemsize np_uint16 = 2"
| "itemsize np_int32 = 4"
| "itemsize np_uint32 = 4"
| "itemsize np_int64 = 8"
| "itemsize np_uint64 = 8"
| "itemsize np_float16 = 2"
| "itemsize np_float32 = 4"
| "itemsize np_float64 = 8"

definition nbytes_of :: "ndarray \<Rightarrow> int" where
  "nbytes_of a = int (prod_list (arr_shape a) * itemsize (arr_dtype a))"

text \<open>An argument that is a number (an id, a stride, a native enum) or an array.\<close>

datatype py_val = PInt int | PArray ndarray

subsection \<open>The native API: calls and answers\<close>

datatype gl_target = GL_ARRAY_BUFFER | GL_ELEMENT_ARRAY_BUFFER | GL_TEXTURE_2D | GL_TEXTURE_3D

datatype gl_usage = GL_DYNAMIC_DRAW

datatype gl_type =
    GL_BYTE | GL_UNSIGNED_BYTE | GL_SHORT | GL_UNSIGNED_SHORT | GL_INT | GL_UNSIGNED_INT
  | GL_FLOAT

datatype shader_type = GL_VERTEX_SHADER | GL_FRAGMENT_SHADER

datatype gl_pname =
    GL_COMPILE_STATUS | GL_LINK_STATUS | GL_VALIDATE_STATUS | GL_ACTIVE_UNIFORMS
  | GL_ACTIVE_ATTRIBUTES | GL_TEXTURE_WRAP_S | GL_TEXTURE_WRAP_T | GL_TEXTURE_MIN_FILTER
  | GL_TEXTURE_MAG_FILTER | GL_UNPACK_ALIGNMENT

text \<open>
  One constructor for each function of the native API the module calls, with the arguments
  of the call. \<open>GlUniform f ...\<close> and \<open>GlVertexAttrib f ...\<close> are the setters the module looks
  up by name (\<^verbatim>\<open>getattr(gl, funcname)\<close>); \<open>GlCheckError\<close> is \<^verbatim>\<open>gl.check_error\<close>.
\<close>

datatype gl_call =
    GlCreateBuffer
  | GlDeleteBuffer nat
  | GlBindBuffer "gl_target option" nat
  | GlBufferData_size "gl_target option" int gl_usage
  | GlBufferData_data "gl_target option" ndarray gl_usage
  | GlBufferSubData "gl_target option" int ndarray
  | GlCreateTexture
  | GlDeleteTexture nat
  | GlBindTexture "gl_target option" nat
  | GlActiveTexture int
  | GlTexImage2D "gl_target option" nat nat nat gl_type "nat list"
  | GlTexImage3D "gl_target option" nat nat nat gl_type "nat list"
  | GlTexSubImage2D "gl_target option" nat int int nat gl_type ndarray
  | GlTexSubImage3D "gl_target option" nat int int int nat gl_type ndarray
  | GlPixelStorei gl_pname "nat option"
  | GlTexParameterf "gl_target option" gl_pname py_val
  | GlCreateProgram
  | GlDeleteProgram nat
  | GlUseProgram nat
  | GlValidateProgram nat
  | GlGetProgramParameter nat gl_pname
  | GlGetProgramInfoLog nat
  | GlCreateShader shader_type
  | GlShaderSource nat string
  | GlCompileShader nat
  | GlGetShaderParameter nat gl_pname
  | GlGetShaderInfoLog nat
  | GlAttachShader nat nat
  | GlDetachShader nat nat
  | GlDeleteShader nat
  | GlLinkProgram nat
  | GlGetActiveAttrib nat nat
  | GlGetActiveUniform nat nat
  | GlGetUniformLocation nat string
  | GlGetAttribLocation nat string
  | GlUniform string int py_val
  | GlUniformMatrix string int bool py_val
  | GlUniform1i int int
  | GlDisableVertexAttribArray int
  | GlEnableVertexAttribArray int
  | GlVertexAttrib string int "py_val list"
  | GlVertexAttribPointer int nat gl_type bool py_val py_val
  | GlDrawElements nat py_val py_val
  | GlDrawArrays nat py_val py_val
  | GlCheckError string

text \<open>The diagnostics the module prints or logs; the wording of the text is not modelled.\<close>

datatype diag =
    Print_cannot string int
  | Print_invalid_command string
  | Print_info_log string
  | Print_gtype_format "gl_type option" nat
  | Warn_unset_variables "string set"
  | Warn_not_active_uniform string
  | Warn_not_active_attribute string
  | Debug_using_glBufferData

text \<open>
  What lies outside the Python objects: the calls made on the native API so far (oldest
  first) and the diagnostics printed or logged so far.
\<close>

record sys =
  gl_trace :: "gl_call list"
  diags :: "diag list"

definition gl :: "gl_call \<Rightarrow> sys \<Rightarrow> sys" where
  "gl c s = s\<lparr>gl_trace := gl_trace s @ [c]\<rparr>"

definition emit :: "diag \<Rightarrow> sys \<Rightarrow> sys" where
  "emit d s = s\<lparr>diags := diags s @ [d]\<rparr>"

definition sys0 :: sys where
  "sys0 = \<lparr>gl_trace = [], diags = []\<rparr>"

text \<open>
  The exceptions. RuntimeError carries what the module raises it for; \<open>GlError\<close> is an
  exception raised by the native binding itself.
\<close>

datatype runtime_error =
    Program_validation_error
  | Shader_compilation_error shader_type string string
  | Program_linking_error
  | Could_not_find_texture int
  | Could_not_find_VBO int

datatype py_error =
    KeyError | AttributeError | TypeError | IndexError | ValueError | ImportError
  | RecursionError | RuntimeError runtime_error | GlError

datatype outcome = Ok | Raised py_error

text \<open>
  The environment of a run. The native API answers a call from the calls made so far, the
  call being answered last in the list: \<open>gl_name\<close> is the object name a \<^verbatim>\<open>glCreate*\<close> call
  returns, \<open>gl_bool\<close> the status a parameter query returns, \<open>gl_int\<close> a count or a location,
  \<open>gl_text\<close> an info log, \<open>gl_active\<close> the (name, size, type) of an active variable, and
  \<open>gl_raises\<close> tells whether the call raises (\<^verbatim>\<open>gl.check_error\<close> on a pending error,
  \<^verbatim>\<open>glBufferSubData\<close> on a faulty driver). \<open>set_pop\<close> is the runtime's choice in
  \<^verbatim>\<open>set.pop()\<close>, \<open>desktop_on_windows\<close> is
  \<^verbatim>\<open>gl.current_backend is gl.desktop and sys.platform.startswith('win')\<close>,
  \<open>has_pyopengl\<close> tells whether \<^verbatim>\<open>import OpenGL.GL\<close> succeeds, and \<open>recursion_limit\<close> is
  the depth of nested calls at which Python raises RecursionError.
\<close>

record env =
  gl_name :: "gl_call list \<Rightarrow> nat"
  gl_bool :: "gl_call list \<Rightarrow> bool"
  gl_int :: "gl_call list \<Rightarrow> int"
  gl_text :: "gl_call list \<Rightarrow> string"
  gl_active :: "gl_call list \<Rightarrow> string \<times> int \<times> nat"
  gl_raises :: "gl_call list \<Rightarrow> bool"
  set_pop :: "int list \<Rightarrow> int"
  desktop_on_windows :: bool
  has_pyopengl :: bool
  recursion_limit :: nat

text \<open>
  A well-behaved environment for running examples: every created object gets a new name,
  every status is good, no variable is active, nothing raises.
\<close>

definition demo_env :: env where
  "demo_env = \<lparr>gl_name = (\<lambda>tr. length tr), gl_bool = (\<lambda>tr. True), gl_int = (\<lambda>tr. 0),
     gl_text = (\<lambda>tr. []), gl_active = (\<lambda>tr. ([], 1, 0)), gl_raises = (\<lambda>tr. False),
     set_pop = hd, desktop_on_windows = False, has_pyopengl = True, recursion_limit = 1000\<rparr>"

text \<open>
  The same environment with a linked program that has one active attribute, \<^verbatim>\<open>pos\<close>, and
  one active uniform, the array \<^verbatim>\<open>color\<close> of three elements, which the native API reports
  under the name of its first element. 35665 and 35666 are GL_FLOAT_VEC3 and GL_FLOAT_VEC4.
\<close>

definition shader_env :: env where
  "shader_env = demo_env
     \<lparr>gl_int := (\<lambda>tr. case last tr of
                     GlGetProgramParameter h GL_ACTIVE_UNIFORMS \<Rightarrow> 1
                   | GlGetProgramParameter h GL_ACTIVE_ATTRIBUTES \<Rightarrow> 1
                   | _ \<Rightarrow> 0),
      gl_active := (\<lambda>tr. case last tr of
                     GlGetActiveUniform h i \<Rightarrow> (''color[0]'', 3, 35666)
                   | _ \<Rightarrow> (''pos'', 1, 35665))\<rparr>"

definition check_error :: "env \<Rightarrow> string \<Rightarrow> sys \<Rightarrow> outcome \<times> sys" where
  "check_error e when s =
     (let s1 = gl (GlCheckError when) s
      in (if gl_raises e (gl_trace s1) then Raised GlError else Ok, s1))"

subsection \<open>GlirBuffer\<close>

record glir_buffer =
  buf_target :: "gl_target option"
  buf_handle :: nat
  buffer_size :: int
  bufferSubDataOk :: bool

text \<open>
  \<^verbatim>\<open>GlirBuffer.__init__\<close>; the class attribute \<^verbatim>\<open>_target\<close> is None in GlirBuffer,
  GL_ARRAY_BUFFER in GlirVertexBuffer and GL_ELEMENT_ARRAY_BUFFER in GlirIndexBuffer.
\<close>

definition GlirBuffer_init :: "gl_target option \<Rightarrow> env \<Rightarrow> sys \<Rightarrow> glir_buffer \<times> sys" where
  "GlirBuffer_init target e s =
     (let s1 = gl GlCreateBuffer s
      in (\<lparr>buf_target = target, buf_handle = gl_name e (gl_trace s1),
           buffer_size = 0, bufferSubDataOk = False\<rparr>, s1))"

definition GlirVertexBuffer_init :: "env \<Rightarrow> sys \<Rightarrow> glir_buffer \<times> sys" where
  "GlirVertexBuffer_init = GlirBuffer_init (Some GL_ARRAY_BUFFER)"

definition GlirIndexBuffer_init :: "env \<Rightarrow> sys \<Rightarrow> glir_buffer \<times> sys" where
  "GlirIndexBuffer_init = GlirBuffer_init (Some GL_ELEMENT_ARRAY_BUFFER)"

definition GlirBuffer_delete :: "glir_buffer \<Rightarrow> sys \<Rightarrow> sys" where
  "GlirBuffer_delete b s = gl (GlDeleteBuffer (buf_handle b)) s"

definition GlirBuffer_activate :: "glir_buffer \<Rightarrow> sys \<Rightarrow> sys" where
  "GlirBuffer_activate b s = gl (GlBindBuffer (buf_target b) (buf_handle b)) s"

definition GlirBuffer_deactivate :: "glir_buffer \<Rightarrow> sys \<Rightarrow> sys" where
  "GlirBuffer_deactivate b s = gl (GlBindBuffer (buf_target b) 0) s"

text \<open>\<^verbatim>\<open>GlirBuffer.set_size(self, nbytes)\<close>\<close>

definition GlirBuffer_set_size :: "glir_buffer \<Rightarrow> int \<Rightarrow> sys \<Rightarrow> glir_buffer \<times> sys" where
  "GlirBuffer_set_size b nbytes s =
     (if nbytes \<noteq> buffer_size b then
        (let s1 = gl (GlBindBuffer (buf_target b) (buf_handle b)) s;
             s2 = gl (GlBufferData_size (buf_target b) nbytes GL_DYNAMIC_DRAW) s1
         in (b\<lparr>buffer_size := nbytes\<rparr>, s2))
      else (b, s))"

text \<open>
  \<^verbatim>\<open>GlirBuffer.set_data(self, offset, data)\<close>. The check before the \<^verbatim>\<open>try\<close> propagates
  its exception; an exception of the upload or of the check after it is caught, and
  answered by a full upload when the data covers the whole buffer.
\<close>

definition GlirBuffer_set_data ::
    "glir_buffer \<Rightarrow> int \<Rightarrow> ndarray \<Rightarrow> env \<Rightarrow> sys \<Rightarrow> outcome \<times> glir_buffer \<times> sys" where
  "GlirBuffer_set_data b offset data e s =
     (let s1 = gl (GlBindBuffer (buf_target b) (buf_handle b)) s;
          nbytes = nbytes_of data;
          check_ati_bug = (\<not> bufferSubDataOk b \<and> desktop_on_windows e);
          (r2, s2) = (if check_ati_bug then check_error e ''periodic check'' s1 else (Ok, s1))
      in case r2 of
           Raised x \<Rightarrow> (Raised x, b, s2)
         | Ok \<Rightarrow>
            (let s3 = gl (GlBufferSubData (buf_target b) offset data) s2;
                 (r4, s4) =
                    (if gl_raises e (gl_trace s3) then (Raised GlError, s3)
                     else if check_ati_bug then check_error e ''glBufferSubData'' s3
                     else (Ok, s3))
             in case r4 of
                  Ok \<Rightarrow> (Ok, b\<lparr>bufferSubDataOk := True\<rparr>, s4)
                | Raised x \<Rightarrow>
                    (if offset = 0 \<and> nbytes = buffer_size b then
                       (Ok, b, emit Debug_using_glBufferData
                                 (gl (GlBufferData_data (buf_target b) data GL_DYNAMIC_DRAW) s4))
                     else (Raised x, b, s4))))"

subsection \<open>GlirTexture\<close>

text \<open>
  \<^verbatim>\<open>_shape_format\<close> is the integer 0 after \<^verbatim>\<open>__init__\<close> and is compared with the tuple
  \<^verbatim>\<open>(shape, format)\<close>; \<^verbatim>\<open>_format\<close> does not exist before the first \<^verbatim>\<open>set_size\<close>.
\<close>

datatype shape_format = SF_int int | SF_tuple "nat list" nat

record glir_texture =
  tex_target :: "gl_target option"
  tex_handle :: nat
  tex_shape_format :: shape_format
  tex_format :: "nat option"

text \<open>The class attribute \<^verbatim>\<open>GlirTexture._types\<close>.\<close>

fun GlirTexture_types :: "np_dtype \<Rightarrow> gl_type option" where
  "GlirTexture_types np_int8 = Some GL_BYTE"
| "GlirTexture_types np_uint8 = Some GL_UNSIGNED_BYTE"
| "GlirTexture_types np_int16 = Some GL_SHORT"
| "GlirTexture_types np_uint16 = Some GL_UNSIGNED_SHORT"
| "GlirTexture_types np_int32 = Some GL_INT"
| "GlirTexture_types np_uint32 = Some GL_UNSIGNED_INT"
| "GlirTexture_types np_float32 = Some GL_FLOAT"
| "GlirTexture_types _ = None"

definition GlirTexture_init :: "gl_target option \<Rightarrow> env \<Rightarrow> sys \<Rightarrow> glir_texture \<times> sys" where
  "GlirTexture_init target e s =
     (let s1 = gl GlCreateTexture s
      in (\<lparr>tex_target = target, tex_handle = gl_name e (gl_trace s1),
           tex_shape_format = SF_int 0, tex_format = None\<rparr>, s1))"

definition GlirTexture2D_init :: "env \<Rightarrow> sys \<Rightarrow> glir_texture \<times> sys" where
  "GlirTexture2D_init = GlirTexture_init (Some GL_TEXTURE_2D)"

definition GlirTexture3D_init :: "env \<Rightarrow> sys \<Rightarrow> glir_texture \<times> sys" where
  "GlirTexture3D_init = GlirTexture_init (Some GL_TEXTURE_3D)"

definition GlirTexture_delete :: "glir_texture \<Rightarrow> sys \<Rightarrow> sys" where
  "GlirTexture_delete t s = gl (GlDeleteTexture (tex_handle t)) s"

definition GlirTexture_activate :: "glir_texture \<Rightarrow> sys \<Rightarrow> sys" where
  "GlirTexture_activate t s = gl (GlBindTexture (tex_target t) (tex_handle t)) s"

definition GlirTexture_deactivate :: "glir_texture \<Rightarrow> sys \<Rightarrow> sys" where
  "GlirTexture_deactivate t s = gl (GlBindTexture (tex_target t) 0) s"

text \<open>
  \<^verbatim>\<open>_get_alignment(self, width)\<close>: the first of 4, 8, 2, 1 that divides the width; a loop
  that finds none would return None.
\<close>

definition get_alignment :: "nat \<Rightarrow> nat option" where
  "get_alignment width = find (\<lambda>alignment. width mod alignment = 0) [4, 8, 2, 1]"

text \<open>\<^verbatim>\<open>set_wrapping\<close> and \<^verbatim>\<open>set_interpolation\<close> read elements 0 and 1 of their argument.\<close>

definition GlirTexture_set_wrapping ::
    "glir_texture \<Rightarrow> py_val list \<Rightarrow> sys \<Rightarrow> outcome \<times> sys" where
  "GlirTexture_set_wrapping t wrapping s =
     (let s1 = GlirTexture_activate t s in
      case wrapping of
        [] \<Rightarrow> (Raised IndexError, s1)
      | w0 # ws \<Rightarrow>
          (let s2 = gl (GlTexParameterf (tex_target t) GL_TEXTURE_WRAP_S w0) s1 in
           case ws of
             [] \<Rightarrow> (Raised IndexError, s2)
           | w1 # _ \<Rightarrow> (Ok, gl (GlTexParameterf (tex_target t) GL_TEXTURE_WRAP_T w1) s2)))"

definition GlirTexture_set_interpolation ::
    "glir_texture \<Rightarrow> py_val list \<Rightarrow> sys \<Rightarrow> outcome \<times> sys" where
  "GlirTexture_set_interpolation t interpolation s =
     (let s1 = GlirTexture_activate t s in
      case interpolation of
        [] \<Rightarrow> (Raised IndexError, s1)
      | i0 # is \<Rightarrow>
          (let s2 = gl (GlTexParameterf (tex_target t) GL_TEXTURE_MIN_FILTER i0) s1 in
           case is of
             [] \<Rightarrow> (Raised IndexError, s2)
           | i1 # _ \<Rightarrow> (Ok, gl (GlTexParameterf (tex_target t) GL_TEXTURE_MAG_FILTER i1) s2)))"

text \<open>
  \<^verbatim>\<open>GlirTexture2D.set_size(self, shape, format)\<close>. Nothing in the module assigns
  \<^verbatim>\<open>_shape_format\<close> after \<^verbatim>\<open>__init__\<close>.
\<close>

definition GlirTexture2D_set_size ::
    "glir_texture \<Rightarrow> nat list \<Rightarrow> nat \<Rightarrow> sys \<Rightarrow> glir_texture \<times> sys" where
  "GlirTexture2D_set_size t shape format s =
     (if SF_tuple shape format \<noteq> tex_shape_format t then
        (t\<lparr>tex_format := Some format\<rparr>,
         gl (GlTexImage2D (tex_target t) 0 format format GL_BYTE (take 2 shape)) s)
      else (t, s))"

text \<open>
  \<^verbatim>\<open>GlirTexture2D.set_data(self, offset, data)\<close>. The \<^verbatim>\<open>print\<close> before the type check reads
  \<^verbatim>\<open>self._format\<close>.
\<close>

definition GlirTexture2D_set_data ::
    "glir_texture \<Rightarrow> int list \<Rightarrow> ndarray \<Rightarrow> sys \<Rightarrow> outcome \<times> sys" where
  "GlirTexture2D_set_data t offset data s =
     (case offset of
        [y, x] \<Rightarrow>
          (let gtype = GlirTexture_types (arr_dtype data) in
           case tex_format t of
             None \<Rightarrow> (Raised AttributeError, s)
           | Some format \<Rightarrow>
               (let s1 = emit (Print_gtype_format gtype format) s in
                case gtype of
                  None \<Rightarrow> (Raised ValueError, s1)
                | Some gt \<Rightarrow>
                    (let n = length (arr_shape data) in
                     if n < 2 then (Raised IndexError, s1)
                     else
                       (let alignment =
                              get_alignment (arr_shape data ! (n - 2) * arr_shape data ! (n - 1));
                            s2 = (if alignment \<noteq> Some 4
                                  then gl (GlPixelStorei GL_UNPACK_ALIGNMENT alignment) s1 else s1);
                            s3 = gl (GlTexSubImage2D (tex_target t) 0 x y format gt data) s2;
                            s4 = (if alignment \<noteq> Some 4
                                  then gl (GlPixelStorei GL_UNPACK_ALIGNMENT (Some 4)) s3 else s3)
                        in (Ok, s4)))))
      | _ \<Rightarrow> (Raised ValueError, s))"

text \<open>
  The module's own \<^verbatim>\<open>glTexImage3D\<close> and \<^verbatim>\<open>glTexSubImage3D\<close>, which import PyOpenGL and
  unpack three dimensions.
\<close>

definition glTexImage3D ::
    "env \<Rightarrow> gl_target option \<Rightarrow> nat \<Rightarrow> nat \<Rightarrow> nat \<Rightarrow> gl_type \<Rightarrow> nat list \<Rightarrow> sys
      \<Rightarrow> outcome \<times> sys" where
  "glTexImage3D e target level internalformat format type pixels s =
     (if \<not> has_pyopengl e then (Raised ImportError, s)
      else case pixels of
        [depth, height, width] \<Rightarrow>
          (Ok, gl (GlTexImage3D target level internalformat format type [depth, height, width]) s)
      | _ \<Rightarrow> (Raised ValueError, s))"

definition glTexSubImage3D ::
    "env \<Rightarrow> gl_target option \<Rightarrow> nat \<Rightarrow> int \<Rightarrow> int \<Rightarrow> int \<Rightarrow> nat \<Rightarrow> gl_type \<Rightarrow> ndarray \<Rightarrow> sys
      \<Rightarrow> outcome \<times> sys" where
  "glTexSubImage3D e target level xoffset yoffset zoffset format type pixels s =
     (if \<not> has_pyopengl e then (Raised ImportError, s)
      else case take 3 (arr_shape pixels) of
        [depth, height, width] \<Rightarrow>
          (Ok, gl (GlTexSubImage3D target level xoffset yoffset zoffset format type pixels) s)
      | _ \<Rightarrow> (Raised ValueError, s))"

text \<open>\<^verbatim>\<open>GlirTexture3D.set_size(self, shape, format)\<close>\<close>

definition GlirTexture3D_set_size ::
    "glir_texture \<Rightarrow> nat list \<Rightarrow> nat \<Rightarrow> env \<Rightarrow> sys \<Rightarrow> outcome \<times> glir_texture \<times> sys" where
  "GlirTexture3D_set_size t shape format e s =
     (if SF_tuple shape format \<noteq> tex_shape_format t then
        (let (r, s1) = glTexImage3D e (tex_target t) 0 format format GL_BYTE (take 3 shape) s
         in (r, t\<lparr>tex_format := Some format\<rparr>, s1))
      else (Ok, t, s))"

text \<open>
  \<^verbatim>\<open>GlirTexture3D.set_data(self, offset, data)\<close> reads the element type from
  \<^verbatim>\<open>self.dtype\<close>, an attribute that no GlirTexture3D has.
\<close>

definition GlirTexture3D_self_dtype :: "glir_texture \<Rightarrow> py_error + np_dtype" where
  "GlirTexture3D_self_dtype t = Inl AttributeError"

definition GlirTexture3D_set_data ::
    "glir_texture \<Rightarrow> int list \<Rightarrow> ndarray \<Rightarrow> env \<Rightarrow> sys \<Rightarrow> outcome \<times> sys" where
  "GlirTexture3D_set_data t offset data e s =
     (case offset of
        [z, y, x] \<Rightarrow>
          (case GlirTexture3D_self_dtype t of
             Inl err \<Rightarrow> (Raised err, s)
           | Inr dtype \<Rightarrow>
              (case GlirTexture_types dtype of
                 None \<Rightarrow> (Raised ValueError, s)
               | Some gt \<Rightarrow>
                   (let n = length (arr_shape data) in
                    if n < 3 then (Raised IndexError, s)
                    else
                      (let alignment =
                             get_alignment (arr_shape data ! (n - 3) * arr_shape data ! (n - 2) *
                                            arr_shape data ! (n - 1));
                           s2 = (if alignment \<noteq> Some 4
                                 then gl (GlPixelStorei GL_UNPACK_ALIGNMENT alignment) s else s)
                       in case tex_format t of
                            None \<Rightarrow> (Raised AttributeError, s2)
                          | Some format \<Rightarrow>
                              (case glTexSubImage3D e (tex_target t) 0 x y z format gt data s2 of
                                 (Raised err, s3) \<Rightarrow> (Raised err, s3)
                               | (Ok, s3) \<Rightarrow>
                                   (Ok, if alignment \<noteq> Some 4
                                        then gl (GlPixelStorei GL_UNPACK_ALIGNMENT (Some 4)) s3
                                        else s3))))))
      | _ \<Rightarrow> (Raised ValueError, s))"

subsection \<open>GlirProgram._get_free_unit\<close>

text \<open>\<^verbatim>\<open>min(units)\<close> and \<^verbatim>\<open>max(units)\<close> of a non-empty list.\<close>

fun py_min :: "int list \<Rightarrow> int" where
  "py_min [] = 0"
| "py_min (x # xs) = fold min xs x"

fun py_max :: "int list \<Rightarrow> int" where
  "py_max [] = 0"
| "py_max (x # xs) = fold max xs x"

text \<open>
  \<^verbatim>\<open>set(range(min_unit+1, max_unit)).difference(units)\<close>, as the ascending list of its
  elements. \<^verbatim>\<open>set.pop()\<close> removes and returns an arbitrary element of a non-empty set and
  raises KeyError on an empty one: which element is the choice of the Python runtime, so
  the model takes it as the parameter \<open>pop\<close>, a function of the set's elements.
\<close>

definition unit_gaps :: "int list \<Rightarrow> int list" where
  "unit_gaps units = filter (\<lambda>u. u \<notin> set units) [py_min units + 1 .. py_max units - 1]"

definition get_free_unit :: "(int list \<Rightarrow> int) \<Rightarrow> int list \<Rightarrow> py_error + int" where
  "get_free_unit pop units =
     (if units = [] then Inr 1
      else
        (let min_unit = py_min units; max_unit = py_max units in
         if min_unit > 1 then Inr (min_unit - 1)
         else if int (length units) < max_unit - min_unit + 1 then
           (if unit_gaps units = [] then Inl KeyError else Inr (pop (unit_gaps units)))
         else Inr (max_unit + 1)))"

text \<open>The runtime's choice is an element of the set it is asked to pop from.\<close>

definition valid_pop :: "(int list \<Rightarrow> int) \<Rightarrow> bool" where
  "valid_pop pop = (\<forall>xs. xs \<noteq> [] \<longrightarrow> pop xs \<in> set xs)"

text \<open>
  The policy in the words of the specification: the lowest unit that is at least 1 and not
  in use. One of the units \<open>1 .. length units + 1\<close> is always free.
\<close>

definition spec_lowest_unused_unit :: "int list \<Rightarrow> int" where
  "spec_lowest_unused_unit units =
     hd (filter (\<lambda>u. u \<notin> set units) [1 .. int (length units) + 1])"

subsection \<open>The parser's objects\<close>

text \<open>
  Objects are shared by reference: the registry, a program's sampler table and its buffer
  table may all hold the same object. The model keeps the objects in a store and the
  references as numbers. A program's \<^verbatim>\<open>_samplers\<close> and \<^verbatim>\<open>_buffers\<close> are dictionaries that
  are iterated over, so they are kept as association lists in insertion order.
\<close>

type_synonym ref = nat

record glir_program =
  prog_handle :: nat
  validated :: bool
  handles :: "string \<rightharpoonup> int"
  unset_variables :: "string set"
  samplers :: "(string \<times> ref \<times> int) list"
  buffers :: "(string \<times> ref) list"

datatype glir_object =
    Buffer glir_buffer
  | Texture2D glir_texture
  | Texture3D glir_texture
  | Program glir_program

text \<open>
  \<^verbatim>\<open>GlirParser._current_program\<close> holds the integer 0 or the built-in function \<^verbatim>\<open>id\<close>: that
  is what the name \<^verbatim>\<open>id\<close> denotes in \<^verbatim>\<open>use_this_program\<close>, which has no variable of that
  name. The attribute does not exist before the first program is constructed.
\<close>

datatype current = Cur_int int | Cur_builtin_id

record parser =
  objects :: "int \<rightharpoonup> ref"
  invalid_objects :: "int set"
  current_program :: "current option"
  heap :: "ref \<rightharpoonup> glir_object"
  next_ref :: ref

definition GlirParser_init :: parser where
  "GlirParser_init = \<lparr>objects = Map.empty, invalid_objects = {}, current_program = None,
     heap = Map.empty, next_ref = 0\<rparr>"

datatype glir_class =
  GlirVertexBuffer | GlirIndexBuffer | GlirProgram | GlirTexture2D | GlirTexture3D

text \<open>\<^verbatim>\<open>GlirParser._classmap\<close>, with the keys as the source spells them.\<close>

definition classmap :: "string \<rightharpoonup> glir_class" where
  "classmap = map_of
     [(''VERTEXBUFFER'', GlirVertexBuffer),
      (''INDEXBUFFER'', GlirIndexBuffer),
      (''PROGRAM'', GlirProgram),
      (''Texture2D'', GlirTexture2D),
      (''Texture3D'', GlirTexture3D)]"

text \<open>\<^verbatim>\<open>GlirParser.get_object(self, id)\<close>\<close>

definition get_object :: "parser \<Rightarrow> int \<Rightarrow> ref option" where
  "get_object p i = objects p i"

text \<open>
  The fields of the program at a reference, and an update of them in place. Both are
  applied only to references of programs.
\<close>

definition no_program :: glir_program where
  "no_program = \<lparr>prog_handle = 0, validated = False, handles = Map.empty,
     unset_variables = {}, samplers = [], buffers = []\<rparr>"

definition prog_of :: "parser \<Rightarrow> ref \<Rightarrow> glir_program" where
  "prog_of p r = (case heap p r of Some (Program pr) \<Rightarrow> pr | _ \<Rightarrow> no_program)"

definition upd_program :: "ref \<Rightarrow> (glir_program \<Rightarrow> glir_program) \<Rightarrow> parser \<Rightarrow> parser" where
  "upd_program r f p =
     (case heap p r of
        Some (Program pr) \<Rightarrow> p\<lparr>heap := (heap p)(r \<mapsto> Program (f pr))\<rparr>
      | _ \<Rightarrow> p)"

text \<open>\<^verbatim>\<open>d.pop(k, None)\<close> and \<^verbatim>\<open>d[k] = v\<close> of a dictionary in insertion order.\<close>

definition dict_pop :: "'k \<Rightarrow> ('k \<times> 'v) list \<Rightarrow> ('k \<times> 'v) list" where
  "dict_pop k d = filter (\<lambda>kv. fst kv \<noteq> k) d"

fun dict_set :: "'k \<Rightarrow> 'v \<Rightarrow> ('k \<times> 'v) list \<Rightarrow> ('k \<times> 'v) list" where
  "dict_set k v [] = [(k, v)]"
| "dict_set k v ((k', v') # d) = (if k' = k then (k, v) # d else (k', v') # dict_set k v d)"

subsection \<open>GlirProgram\<close>

definition UTYPEMAP :: "string \<rightharpoonup> string" where
  "UTYPEMAP = map_of
     [(''float'', ''glUniform1fv''), (''vec2'', ''glUniform2fv''),
      (''vec3'', ''glUniform3fv''), (''vec4'', ''glUniform4fv''),
      (''int'', ''glUniform1iv''), (''ivec2'', ''glUniform2iv''),
      (''ivec3'', ''glUniform3iv''), (''ivec4'', ''glUniform4iv''),
      (''bool'', ''glUniform1iv''), (''bvec2'', ''glUniform2iv''),
      (''bvec3'', ''glUniform3iv''), (''bvec4'', ''glUniform4iv''),
      (''mat2'', ''glUniformMatrix2fv''), (''mat3'', ''glUniformMatrix3fv''),
      (''mat4'', ''glUniformMatrix4fv''),
      (''sampler2D'', ''glUniform1i''), (''sampler3D'', ''glUniform1i'')]"

definition ATYPEMAP :: "string \<rightharpoonup> string" where
  "ATYPEMAP = map_of
     [(''float'', ''glVertexAttrib1f''), (''vec2'', ''glVertexAttrib2f''),
      (''vec3'', ''glVertexAttrib3f''), (''vec4'', ''glVertexAttrib4f'')]"

definition ATYPEINFO :: "string \<rightharpoonup> nat \<times> gl_type \<times> np_dtype" where
  "ATYPEINFO = map_of
     [(''float'', (1, GL_FLOAT, np_float32)), (''vec2'', (2, GL_FLOAT, np_float32)),
      (''vec3'', (3, GL_FLOAT, np_float32)), (''vec4'', (4, GL_FLOAT, np_float32))]"

text \<open>\<^verbatim>\<open>GlirProgram.__init__(self, parser)\<close>\<close>

definition GlirProgram_init :: "env \<Rightarrow> parser \<times> sys \<Rightarrow> glir_program \<times> parser \<times> sys" where
  "GlirProgram_init e st =
     (case st of (p, s) \<Rightarrow>
        (let p1 = p\<lparr>current_program := Some (Cur_int 0)\<rparr>;
             s1 = gl GlCreateProgram s
         in (\<lparr>prog_handle = gl_name e (gl_trace s1), validated = False, handles = Map.empty,
              unset_variables = {}, samplers = [], buffers = []\<rparr>, p1, s1)))"

definition GlirProgram_delete :: "glir_program \<Rightarrow> sys \<Rightarrow> sys" where
  "GlirProgram_delete pr s = gl (GlDeleteProgram (prog_handle pr)) s"

text \<open>
  \<^verbatim>\<open>GlirProgram.use_this_program(self)\<close>: the test is
  \<^verbatim>\<open>id != self._parser._current_program\<close> and the assignment stores \<^verbatim>\<open>id\<close>.
\<close>

definition use_this_program :: "ref \<Rightarrow> parser \<times> sys \<Rightarrow> outcome \<times> parser \<times> sys" where
  "use_this_program self st =
     (case st of (p, s) \<Rightarrow>
        (case current_program p of
           None \<Rightarrow> (Raised AttributeError, p, s)
         | Some cur \<Rightarrow>
             if Cur_builtin_id \<noteq> cur then
               (Ok, p\<lparr>current_program := Some Cur_builtin_id\<rparr>,
                gl (GlUseProgram (prog_handle (prog_of p self))) s)
             else (Ok, p, s)))"

text \<open>The second half of \<^verbatim>\<open>activate\<close>: validation on the first activation.\<close>

definition GlirProgram_validate :: "env \<Rightarrow> ref \<Rightarrow> parser \<times> sys \<Rightarrow> outcome \<times> parser \<times> sys" where
  "GlirProgram_validate e self st =
     (case st of (p, s) \<Rightarrow>
        (let pr = prog_of p self in
         if \<not> validated pr then
           (let p1 = upd_program self (\<lambda>q. q\<lparr>validated := True\<rparr>) p;
                s1 = (if unset_variables pr \<noteq> {}
                      then emit (Warn_unset_variables (unset_variables pr)) s else s);
                s2 = gl (GlValidateProgram (prog_handle pr)) s1;
                s3 = gl (GlGetProgramParameter (prog_handle pr) GL_VALIDATE_STATUS) s2
            in if \<not> gl_bool e (gl_trace s3) then
                 (let s4 = gl (GlGetProgramInfoLog (prog_handle pr)) s3
                  in (Raised (RuntimeError Program_validation_error), p1,
                      emit (Print_info_log (gl_text e (gl_trace s4))) s4))
               else (Ok, p1, s3))
         else (Ok, p, s)))"

text \<open>
  \<^verbatim>\<open>activate()\<close> of the object at a reference, whatever its class. A program activates the
  objects in its sampler and buffer tables, which are objects of any class the registry
  gave out, programs included: the nesting is bounded by the recursion limit, the first
  argument, at which Python raises RecursionError. \<open>GlActiveTexture unit\<close> stands for
  \<^verbatim>\<open>glActiveTexture(GL_TEXTURE0 + unit)\<close>.
\<close>

fun object_activate :: "nat \<Rightarrow> env \<Rightarrow> ref \<Rightarrow> parser \<times> sys \<Rightarrow> outcome \<times> parser \<times> sys"
and activate_samplers ::
  "nat \<Rightarrow> env \<Rightarrow> (string \<times> ref \<times> int) list \<Rightarrow> parser \<times> sys \<Rightarrow> outcome \<times> parser \<times> sys"
and activate_buffers ::
  "nat \<Rightarrow> env \<Rightarrow> (string \<times> ref) list \<Rightarrow> parser \<times> sys \<Rightarrow> outcome \<times> parser \<times> sys"
where
  "object_activate 0 e r (p, s) = (Raised RecursionError, p, s)"
| "object_activate (Suc n) e r (p, s) =
     (case heap p r of
        None \<Rightarrow> (Raised AttributeError, p, s)
      | Some (Buffer b) \<Rightarrow> (Ok, p, GlirBuffer_activate b s)
      | Some (Texture2D t) \<Rightarrow> (Ok, p, GlirTexture_activate t s)
      | Some (Texture3D t) \<Rightarrow> (Ok, p, GlirTexture_activate t s)
      | Some (Program pr) \<Rightarrow>
          (case use_this_program r (p, s) of
             (Raised x, st1) \<Rightarrow> (Raised x, st1)
           | (Ok, st1) \<Rightarrow>
               (case activate_samplers n e (samplers pr) st1 of
                  (Raised x, st2) \<Rightarrow> (Raised x, st2)
                | (Ok, st2) \<Rightarrow>
                    (case activate_buffers n e (buffers pr) st2 of
                       (Raised x, st3) \<Rightarrow> (Raised x, st3)
                     | (Ok, st3) \<Rightarrow> GlirProgram_validate e r st3))))"
| "activate_samplers n e [] st = (Ok, st)"
| "activate_samplers n e ((name, tex, unit) # rest) (p, s) =
     (case object_activate n e tex (p, gl (GlActiveTexture unit) s) of
        (Raised x, st1) \<Rightarrow> (Raised x, st1)
      | (Ok, st1) \<Rightarrow> activate_samplers n e rest st1)"
| "activate_buffers n e [] st = (Ok, st)"
| "activate_buffers n e ((name, vbo) # rest) (p, s) =
     (case object_activate n e vbo (p, s) of
        (Raised x, st1) \<Rightarrow> (Raised x, st1)
      | (Ok, st1) \<Rightarrow> activate_buffers n e rest st1)"

text \<open>\<^verbatim>\<open>deactivate()\<close> and \<^verbatim>\<open>delete()\<close> of the object at a reference.\<close>

definition object_deactivate :: "ref \<Rightarrow> parser \<times> sys \<Rightarrow> outcome \<times> parser \<times> sys" where
  "object_deactivate r st =
     (case st of (p, s) \<Rightarrow>
        (case heap p r of
           None \<Rightarrow> (Raised AttributeError, p, s)
         | Some (Buffer b) \<Rightarrow> (Ok, p, GlirBuffer_deactivate b s)
         | Some (Texture2D t) \<Rightarrow> (Ok, p, GlirTexture_deactivate t s)
         | Some (Texture3D t) \<Rightarrow> (Ok, p, GlirTexture_deactivate t s)
         | Some (Program pr) \<Rightarrow> (Ok, p, gl (GlBindBuffer (Some GL_ARRAY_BUFFER) 0) s)))"

definition object_delete :: "ref \<Rightarrow> parser \<times> sys \<Rightarrow> outcome \<times> parser \<times> sys" where
  "object_delete r st =
     (case st of (p, s) \<Rightarrow>
        (case heap p r of
           None \<Rightarrow> (Raised AttributeError, p, s)
         | Some (Buffer b) \<Rightarrow> (Ok, p, GlirBuffer_delete b s)
         | Some (Texture2D t) \<Rightarrow> (Ok, p, GlirTexture_delete t s)
         | Some (Texture3D t) \<Rightarrow> (Ok, p, GlirTexture_delete t s)
         | Some (Program pr) \<Rightarrow> (Ok, p, GlirProgram_delete pr s)))"

text \<open>
  The pattern \<^verbatim>\<open>(?P<name>\w+)\s*(\[(?P<size>\d+)\])\s*\<close> matched at the start of a variable's
  name: the result is the group \<^verbatim>\<open>name\<close>. The name is a Python 3 string, and the classes
  \<^verbatim>\<open>\w\<close>, \<^verbatim>\<open>\s\<close> and \<^verbatim>\<open>\d\<close> are the Unicode ones; a character of the model is one code
  point below 256, and the three classes are given on these code points. No shorter run of
  word characters can make the pattern match, since the character after the run has to be
  a space or a bracket.
\<close>

definition is_word :: "char \<Rightarrow> bool" where
  "is_word c =
     (let n = (of_char c :: nat)
      in (48 \<le> n \<and> n \<le> 57) \<or> (65 \<le> n \<and> n \<le> 90) \<or> n = 95 \<or> (97 \<le> n \<and> n \<le> 122) \<or>
         n = 170 \<or> n = 178 \<or> n = 179 \<or> n = 181 \<or> n = 185 \<or> n = 186 \<or>
         (188 \<le> n \<and> n \<le> 190) \<or> (192 \<le> n \<and> n \<le> 214) \<or> (216 \<le> n \<and> n \<le> 246) \<or>
         248 \<le> n)"

definition is_digit :: "char \<Rightarrow> bool" where
  "is_digit c = (let n = (of_char c :: nat) in 48 \<le> n \<and> n \<le> 57)"

definition is_space :: "char \<Rightarrow> bool" where
  "is_space c =
     (let n = (of_char c :: nat)
      in (9 \<le> n \<and> n \<le> 13) \<or> (28 \<le> n \<and> n \<le> 32) \<or> n = 133 \<or> n = 160)"

definition regex_match_name :: "string \<Rightarrow> string option" where
  "regex_match_name name =
     (let w = takeWhile is_word name;
          r1 = dropWhile is_space (dropWhile is_word name)
      in if w = [] then None
         else case r1 of
           [] \<Rightarrow> None
         | c # r2 \<Rightarrow>
             if c \<noteq> CHR ''['' \<or> takeWhile is_digit r2 = [] then None
             else (case dropWhile is_digit r2 of
                     [] \<Rightarrow> None
                   | c' # _ \<Rightarrow> if c' = CHR '']'' then Some w else None))"

text \<open>\<^verbatim>\<open>'%d' % i\<close> for a natural number.\<close>

fun string_of_nat :: "nat \<Rightarrow> string" where
  "string_of_nat n =
     (if n < 10 then [''0123456789'' ! n]
      else string_of_nat (n div 10) @ [''0123456789'' ! (n mod 10)])"

declare string_of_nat.simps [simp del]

text \<open>
  The body of the inner loops of \<^verbatim>\<open>_get_active_attributes_and_uniforms\<close>: the names
  appended to the container for one answer (name, size, type) of the native API.
\<close>

definition active_names :: "string \<times> int \<times> nat \<Rightarrow> string list" where
  "active_names answer =
     (case answer of (name, sz, gtype) \<Rightarrow>
        (case regex_match_name name of
           Some nm \<Rightarrow> map (\<lambda>j. nm @ ''['' @ string_of_nat j @ '']'') [0..<nat sz]
         | None \<Rightarrow> [name]))"

text \<open>
  One of the two inner loops: \<open>func\<close> is \<^verbatim>\<open>glGetActiveAttrib\<close> or \<^verbatim>\<open>glGetActiveUniform\<close> on
  the program, the list is \<^verbatim>\<open>range(count)\<close>, the result the names appended to the
  container.
\<close>

fun get_active :: "env \<Rightarrow> (nat \<Rightarrow> gl_call) \<Rightarrow> nat list \<Rightarrow> sys \<Rightarrow> string list \<times> sys" where
  "get_active e func [] s = ([], s)"
| "get_active e func (i # rest) s =
     (let s1 = gl (func i) s;
          names = active_names (gl_active e (gl_trace s1));
          (more, s2) = get_active e func rest s1
      in (names @ more, s2))"

definition get_active_attributes_and_uniforms ::
    "env \<Rightarrow> glir_program \<Rightarrow> sys \<Rightarrow> string set \<times> sys" where
  "get_active_attributes_and_uniforms e pr s =
     (let s1 = gl (GlGetProgramParameter (prog_handle pr) GL_ACTIVE_UNIFORMS) s;
          cu = gl_int e (gl_trace s1);
          s2 = gl (GlGetProgramParameter (prog_handle pr) GL_ACTIVE_ATTRIBUTES) s1;
          ca = gl_int e (gl_trace s2);
          (attributes, s3) = get_active e (GlGetActiveAttrib (prog_handle pr)) [0..<nat ca] s2;
          (uniforms, s4) = get_active e (GlGetActiveUniform (prog_handle pr)) [0..<nat cu] s3
      in (set (attributes @ uniforms), s4))"

text \<open>
  One round of the loop over the two stages in \<^verbatim>\<open>set_shaders\<close>. The text of the message is
  computed by \<^verbatim>\<open>_get_error\<close> from the code and the log, which the error carries.
\<close>

definition compile_shader ::
    "env \<Rightarrow> string \<Rightarrow> nat \<Rightarrow> shader_type \<Rightarrow> sys \<Rightarrow> outcome \<times> sys" where
  "compile_shader e code handle type s =
     (let s1 = gl (GlShaderSource handle code) s;
          s2 = gl (GlCompileShader handle) s1;
          s3 = gl (GlGetShaderParameter handle GL_COMPILE_STATUS) s2
      in if \<not> gl_bool e (gl_trace s3) then
           (let s4 = gl (GlGetShaderInfoLog handle) s3
            in (Raised (RuntimeError (Shader_compilation_error type code (gl_text e (gl_trace s4)))),
                s4))
         else (Ok, s3))"

text \<open>\<^verbatim>\<open>GlirProgram.set_shaders(self, vert, frag)\<close>\<close>

definition GlirProgram_set_shaders ::
    "env \<Rightarrow> ref \<Rightarrow> string \<Rightarrow> string \<Rightarrow> parser \<times> sys \<Rightarrow> outcome \<times> parser \<times> sys" where
  "GlirProgram_set_shaders e self vert frag st =
     (case st of (p, s) \<Rightarrow>
        (let h = prog_handle (prog_of p self);
             s1 = gl (GlCreateShader GL_VERTEX_SHADER) s;
             vert_handle = gl_name e (gl_trace s1);
             s2 = gl (GlCreateShader GL_FRAGMENT_SHADER) s1;
             frag_handle = gl_name e (gl_trace s2)
         in case compile_shader e vert vert_handle GL_VERTEX_SHADER s2 of
              (Raised x, s3) \<Rightarrow> (Raised x, p, s3)
            | (Ok, s3) \<Rightarrow>
               (case compile_shader e frag frag_handle GL_FRAGMENT_SHADER s3 of
                  (Raised x, s4) \<Rightarrow> (Raised x, p, s4)
                | (Ok, s4) \<Rightarrow>
                   (let s5 = gl (GlAttachShader h vert_handle) s4;
                        s6 = gl (GlAttachShader h frag_handle) s5;
                        s7 = gl (GlLinkProgram h) s6;
                        s8 = gl (GlGetProgramParameter h GL_LINK_STATUS) s7
                    in if \<not> gl_bool e (gl_trace s8) then
                         (let s9 = gl (GlGetProgramInfoLog h) s8
                          in (Raised (RuntimeError Program_linking_error), p,
                              emit (Print_info_log (gl_text e (gl_trace s9))) s9))
                       else
                         (let s9 = gl (GlDetachShader h vert_handle) s8;
                              s10 = gl (GlDetachShader h frag_handle) s9;
                              s11 = gl (GlDeleteShader vert_handle) s10;
                              s12 = gl (GlDeleteShader frag_handle) s11;
                              (active, s13) =
                                 get_active_attributes_and_uniforms e (prog_of p self) s12
                          in (Ok,
                              upd_program self
                                (\<lambda>q. q\<lparr>unset_variables := active, handles := Map.empty\<rparr>) p,
                              s13))))))"

text \<open>
  \<^verbatim>\<open>GlirProgram.set_uniform(self, name, type, value)\<close>, in two parts: the lookup of the
  location, and what follows it once the location is not negative.
\<close>

definition set_uniform_value ::
    "env \<Rightarrow> ref \<Rightarrow> string \<Rightarrow> string \<Rightarrow> py_val \<Rightarrow> int \<Rightarrow> parser \<times> sys \<Rightarrow> outcome \<times> parser \<times> sys"
  where
  "set_uniform_value e self name type val handle st =
     (case st of (p, s) \<Rightarrow>
        (case UTYPEMAP type of
           None \<Rightarrow> (Raised KeyError, p, s)
         | Some funcname \<Rightarrow>
            (case use_this_program self (p, s) of
               (Raised x, st1) \<Rightarrow> (Raised x, st1)
             | (Ok, p1, s1) \<Rightarrow>
                if take 3 type = ''mat'' then
                  (Ok, p1, gl (GlUniformMatrix funcname handle False val) s1)
                else if take 7 type = ''sampler'' then
                  (case val of
                     PArray a \<Rightarrow> (Raised TypeError, p1, s1)
                   | PInt v \<Rightarrow>
                      (case get_object p1 v of
                         None \<Rightarrow> (Raised (RuntimeError (Could_not_find_texture v)), p1, s1)
                       | Some tex \<Rightarrow>
                          (let popped = dict_pop name (samplers (prog_of p1 self));
                               p2 = upd_program self (\<lambda>q. q\<lparr>samplers := popped\<rparr>) p1
                           in case get_free_unit (set_pop e) (map (\<lambda>s. snd (snd s)) popped) of
                                Inl x \<Rightarrow> (Raised x, p2, s1)
                              | Inr unit \<Rightarrow>
                                  (Ok,
                                   upd_program self
                                     (\<lambda>q. q\<lparr>samplers := dict_set name (tex, unit) popped\<rparr>) p2,
                                   gl (GlUniform1i handle unit) s1))))
                else (Ok, p1, gl (GlUniform funcname handle val) s1))))"

definition GlirProgram_set_uniform ::
    "env \<Rightarrow> ref \<Rightarrow> string \<Rightarrow> string \<Rightarrow> py_val \<Rightarrow> parser \<times> sys \<Rightarrow> outcome \<times> parser \<times> sys" where
  "GlirProgram_set_uniform e self name type val st =
     (case st of (p, s) \<Rightarrow>
        (let pr = prog_of p self;
             handle = (case handles pr name of Some h \<Rightarrow> h | None \<Rightarrow> - 1)
         in if handle < 0 then
              (let s1 = gl (GlGetUniformLocation (prog_handle pr) name) s;
                   handle1 = gl_int e (gl_trace s1);
                   p1 = upd_program self
                          (\<lambda>q. q\<lparr>unset_variables := unset_variables q - {name},
                                  handles := (handles q)(name \<mapsto> handle1)\<rparr>) p
               in if handle1 < 0 then (Ok, p1, emit (Warn_not_active_uniform name) s1)
                  else set_uniform_value e self name type val handle1 (p1, s1))
            else set_uniform_value e self name type val handle (p, s)))"

text \<open>
  \<^verbatim>\<open>GlirProgram.set_attribute(self, name, type, value)\<close>, in the same two parts. The value
  is a tuple: \<^verbatim>\<open>(0, *data)\<close> or \<^verbatim>\<open>(vbo_id, stride, offset)\<close>.
\<close>

definition set_attribute_value ::
    "env \<Rightarrow> ref \<Rightarrow> string \<Rightarrow> string \<Rightarrow> py_val list \<Rightarrow> int \<Rightarrow> parser \<times> sys
      \<Rightarrow> outcome \<times> parser \<times> sys" where
  "set_attribute_value e self name type val handle st =
     (case use_this_program self st of
        (Raised x, st1) \<Rightarrow> (Raised x, st1)
      | (Ok, p1, s1) \<Rightarrow>
         (case val of
            [] \<Rightarrow> (Raised IndexError, p1, s1)
          | PArray a # _ \<Rightarrow> (Raised ValueError, p1, s1)
          | PInt v0 # data \<Rightarrow>
             if v0 = 0 then
               (case ATYPEMAP type of
                  None \<Rightarrow> (Raised KeyError, p1, s1)
                | Some funcname \<Rightarrow>
                    (let s2 = gl (GlDisableVertexAttribArray handle) s1;
                         s3 = gl (GlVertexAttrib funcname handle data) s2
                     in (Ok,
                         upd_program self (\<lambda>q. q\<lparr>buffers := dict_pop name (buffers q)\<rparr>) p1,
                         s3)))
             else
               (case data of
                  [stride, offset] \<Rightarrow>
                    (case ATYPEINFO type of
                       None \<Rightarrow> (Raised KeyError, p1, s1)
                     | Some (sz, gtype, dtype) \<Rightarrow>
                        (case get_object p1 v0 of
                           None \<Rightarrow> (Raised (RuntimeError (Could_not_find_VBO v0)), p1, s1)
                         | Some vbo \<Rightarrow>
                            (case object_activate (recursion_limit e) e vbo (p1, s1) of
                               (Raised x, st2) \<Rightarrow> (Raised x, st2)
                             | (Ok, p2, s2) \<Rightarrow>
                                (let s3 = gl (GlEnableVertexAttribArray handle) s2;
                                     s4 = gl (GlVertexAttribPointer handle sz gtype False
                                                stride offset) s3
                                 in (Ok,
                                     upd_program self
                                       (\<lambda>q. q\<lparr>buffers := dict_set name vbo (buffers q)\<rparr>) p2,
                                     s4)))))
                | _ \<Rightarrow> (Raised ValueError, p1, s1))))"

definition GlirProgram_set_attribute ::
    "env \<Rightarrow> ref \<Rightarrow> string \<Rightarrow> string \<Rightarrow> py_val list \<Rightarrow> parser \<times> sys \<Rightarrow> outcome \<times> parser \<times> sys"
  where
  "GlirProgram_set_attribute e self name type val st =
     (case st of (p, s) \<Rightarrow>
        (let pr = prog_of p self;
             handle = (case handles pr name of Some h \<Rightarrow> h | None \<Rightarrow> - 1)
         in if handle < 0 then
              (let s1 = gl (GlGetAttribLocation (prog_handle pr) name) s;
                   handle1 = gl_int e (gl_trace s1);
                   p1 = upd_program self
                          (\<lambda>q. q\<lparr>unset_variables := unset_variables q - {name},
                                  handles := (handles q)(name \<mapsto> handle1)\<rparr>) p
               in if handle1 < 0 then (Ok, p1, emit (Warn_not_active_attribute name) s1)
                  else set_attribute_value e self name type val handle1 (p1, s1))
            else set_attribute_value e self name type val handle (p, s)))"

text \<open>\<^verbatim>\<open>GlirProgram.draw(self, mode, selection)\<close>\<close>

definition draw_selection ::
    "env \<Rightarrow> nat \<Rightarrow> py_val list \<Rightarrow> parser \<times> sys \<Rightarrow> outcome \<times> parser \<times> sys" where
  "draw_selection e mode selection st =
     (case st of (p, s) \<Rightarrow>
        if length selection = 3 then
          (case selection of
             [PInt i, gtype, count] \<Rightarrow>
               (case get_object p i of
                  None \<Rightarrow> (Raised AttributeError, p, s)
                | Some ibuf \<Rightarrow>
                   (case object_activate (recursion_limit e) e ibuf (p, s) of
                      (Raised x, st1) \<Rightarrow> (Raised x, st1)
                    | (Ok, p1, s1) \<Rightarrow>
                        object_deactivate ibuf (p1, gl (GlDrawElements mode count gtype) s1)))
           | _ \<Rightarrow> (Raised TypeError, p, s))
        else
          (case selection of
             [first, count] \<Rightarrow> (Ok, p, gl (GlDrawArrays mode first count) s)
           | _ \<Rightarrow> (Raised ValueError, p, s)))"

definition GlirProgram_draw ::
    "env \<Rightarrow> ref \<Rightarrow> nat \<Rightarrow> py_val list \<Rightarrow> parser \<times> sys \<Rightarrow> outcome \<times> parser \<times> sys" where
  "GlirProgram_draw e self mode selection st =
     (case object_activate (recursion_limit e) e self st of
        (Raised x, st1) \<Rightarrow> (Raised x, st1)
      | (Ok, p1, s1) \<Rightarrow>
         (case check_error e ''Check before draw'' s1 of
            (Raised x, s2) \<Rightarrow> (Raised x, p1, s2)
          | (Ok, s2) \<Rightarrow>
             (case draw_selection e mode selection (p1, s2) of
                (Raised x, st3) \<Rightarrow> (Raised x, st3)
              | (Ok, p3, s3) \<Rightarrow>
                 (case check_error e ''Check after draw'' s3 of
                    (Raised x, s4) \<Rightarrow> (Raised x, p3, s4)
                  | (Ok, s4) \<Rightarrow> object_deactivate self (p3, s4)))))"

subsection \<open>GlirParser.parse\<close>

text \<open>
  A command is the tuple \<^verbatim>\<open>(cmd, id, *args)\<close>. The arguments are given in the shapes the
  methods take them; a call whose arguments do not fit the method raises TypeError, a
  method the object's class does not have raises AttributeError.
\<close>

datatype args =
    Args_none
  | Args_kind "string option"
  | Args_nbytes int
  | Args_shape_format "nat list" nat
  | Args_buffer_data int ndarray
  | Args_texture_data "int list" ndarray
  | Args_shaders string string
  | Args_uniform string string py_val
  | Args_attribute string string "py_val list"
  | Args_draw nat "py_val list"
  | Args_tuple "py_val list"
  | Args_set string args

type_synonym command = "string \<times> int \<times> args"

text \<open>
  \<^verbatim>\<open>args[0]\<close> as the key of the class map in CREATE: None, a string, a value that is no
  key of the map (KeyError), or a value that cannot be hashed, a tuple that holds an array
  (TypeError).
\<close>

fun hashable :: "py_val \<Rightarrow> bool" where
  "hashable (PInt i) = True"
| "hashable (PArray a) = False"

fun create_kind :: "args \<Rightarrow> py_error + string option" where
  "create_kind Args_none = Inl IndexError"
| "create_kind (Args_kind k) = Inr k"
| "create_kind (Args_shaders vert frag) = Inr (Some vert)"
| "create_kind (Args_uniform name type val) = Inr (Some name)"
| "create_kind (Args_attribute name type val) = Inr (Some name)"
| "create_kind (Args_set name a) = Inr (Some name)"
| "create_kind (Args_tuple vals) = (if list_all hashable vals then Inl KeyError else Inl TypeError)"
| "create_kind _ = Inl KeyError"

text \<open>\<^verbatim>\<open>klass(self)\<close>: the constructor of the class, and the new object's place in the store.\<close>

definition construct :: "env \<Rightarrow> glir_class \<Rightarrow> parser \<times> sys \<Rightarrow> glir_object \<times> parser \<times> sys" where
  "construct e klass st =
     (case st of (p, s) \<Rightarrow>
        (case klass of
           GlirVertexBuffer \<Rightarrow> (let (b, s1) = GlirVertexBuffer_init e s in (Buffer b, p, s1))
         | GlirIndexBuffer \<Rightarrow> (let (b, s1) = GlirIndexBuffer_init e s in (Buffer b, p, s1))
         | GlirProgram \<Rightarrow> (let (pr, p1, s1) = GlirProgram_init e (p, s) in (Program pr, p1, s1))
         | GlirTexture2D \<Rightarrow> (let (t, s1) = GlirTexture2D_init e s in (Texture2D t, p, s1))
         | GlirTexture3D \<Rightarrow> (let (t, s1) = GlirTexture3D_init e s in (Texture3D t, p, s1))))"

definition register :: "int \<Rightarrow> glir_object \<Rightarrow> parser \<Rightarrow> parser" where
  "register i ob p =
     p\<lparr>objects := (objects p)(i \<mapsto> next_ref p),
       heap := (heap p)(next_ref p \<mapsto> ob),
       next_ref := Suc (next_ref p)\<rparr>"

text \<open>
  \<^verbatim>\<open>getattr(ob, 'set_' + name)(*args)\<close>: the methods whose names start with \<^verbatim>\<open>set_\<close>, by the
  class of the object.
\<close>

definition call_set ::
    "env \<Rightarrow> ref \<Rightarrow> string \<Rightarrow> args \<Rightarrow> parser \<times> sys \<Rightarrow> outcome \<times> parser \<times> sys" where
  "call_set e ob name a st =
     (case st of (p, s) \<Rightarrow>
        (case heap p ob of
           None \<Rightarrow> (Raised AttributeError, p, s)
         | Some (Buffer b) \<Rightarrow>
            if name = ''size'' then
              (case a of
                 Args_nbytes n \<Rightarrow>
                   (let (b1, s1) = GlirBuffer_set_size b n s
                    in (Ok, p\<lparr>heap := (heap p)(ob \<mapsto> Buffer b1)\<rparr>, s1))
               | _ \<Rightarrow> (Raised TypeError, p, s))
            else if name = ''data'' then
              (case a of
                 Args_buffer_data offset data \<Rightarrow>
                   (let (r, b1, s1) = GlirBuffer_set_data b offset data e s
                    in (r, p\<lparr>heap := (heap p)(ob \<mapsto> Buffer b1)\<rparr>, s1))
               | _ \<Rightarrow> (Raised TypeError, p, s))
            else (Raised AttributeError, p, s)
         | Some (Texture2D t) \<Rightarrow>
            if name = ''size'' then
              (case a of
                 Args_shape_format shape format \<Rightarrow>
                   (let (t1, s1) = GlirTexture2D_set_size t shape format s
                    in (Ok, p\<lparr>heap := (heap p)(ob \<mapsto> Texture2D t1)\<rparr>, s1))
               | _ \<Rightarrow> (Raised TypeError, p, s))
            else if name = ''data'' then
              (case a of
                 Args_texture_data offset data \<Rightarrow>
                   (let (r, s1) = GlirTexture2D_set_data t offset data s in (r, p, s1))
               | _ \<Rightarrow> (Raised TypeError, p, s))
            else if name = ''wrapping'' then
              (case a of
                 Args_tuple wrapping \<Rightarrow>
                   (let (r, s1) = GlirTexture_set_wrapping t wrapping s in (r, p, s1))
               | _ \<Rightarrow> (Raised TypeError, p, s))
            else if name = ''interpolation'' then
              (case a of
                 Args_tuple interpolation \<Rightarrow>
                   (let (r, s1) = GlirTexture_set_interpolation t interpolation s in (r, p, s1))
               | _ \<Rightarrow> (Raised TypeError, p, s))
            else (Raised AttributeError, p, s)
         | Some (Texture3D t) \<Rightarrow>
            if name = ''size'' then
              (case a of
                 Args_shape_format shape format \<Rightarrow>
                   (let (r, t1, s1) = GlirTexture3D_set_size t shape format e s
                    in (r, p\<lparr>heap := (heap p)(ob \<mapsto> Texture3D t1)\<rparr>, s1))
               | _ \<Rightarrow> (Raised TypeError, p, s))
            else if name = ''data'' then
              (case a of
                 Args_texture_data offset data \<Rightarrow>
                   (let (r, s1) = GlirTexture3D_set_data t offset data e s in (r, p, s1))
               | _ \<Rightarrow> (Raised TypeError, p, s))
            else if name = ''wrapping'' then
              (case a of
                 Args_tuple wrapping \<Rightarrow>
                   (let (r, s1) = GlirTexture_set_wrapping t wrapping s in (r, p, s1))
               | _ \<Rightarrow> (Raised TypeError, p, s))
            else if name = ''interpolation'' then
              (case a of
                 Args_tuple interpolation \<Rightarrow>
                   (let (r, s1) = GlirTexture_set_interpolation t interpolation s in (r, p, s1))
               | _ \<Rightarrow> (Raised TypeError, p, s))
            else (Raised AttributeError, p, s)
         | Some (Program pr) \<Rightarrow>
            if name = ''shaders'' then
              (case a of
                 Args_shaders vert frag \<Rightarrow> GlirProgram_set_shaders e ob vert frag (p, s)
               | _ \<Rightarrow> (Raised TypeError, p, s))
            else if name = ''uniform'' then
              (case a of
                 Args_uniform nm type val \<Rightarrow> GlirProgram_set_uniform e ob nm type val (p, s)
               | _ \<Rightarrow> (Raised TypeError, p, s))
            else if name = ''attribute'' then
              (case a of
                 Args_attribute nm type val \<Rightarrow> GlirProgram_set_attribute e ob nm type val (p, s)
               | _ \<Rightarrow> (Raised TypeError, p, s))
            else (Raised AttributeError, p, s)))"

text \<open>\<^verbatim>\<open>ob.draw(*args)\<close>: only a program has the method.\<close>

definition call_draw :: "env \<Rightarrow> ref \<Rightarrow> args \<Rightarrow> parser \<times> sys \<Rightarrow> outcome \<times> parser \<times> sys" where
  "call_draw e ob a st =
     (case st of (p, s) \<Rightarrow>
        (case heap p ob of
           Some (Program pr) \<Rightarrow>
             (case a of
                Args_draw mode selection \<Rightarrow> GlirProgram_draw e ob mode selection (p, s)
              | _ \<Rightarrow> (Raised TypeError, p, s))
         | _ \<Rightarrow> (Raised AttributeError, p, s)))"

text \<open>The body of the loop in \<^verbatim>\<open>GlirParser.parse\<close>, for one command.\<close>

definition parse_command :: "env \<Rightarrow> command \<Rightarrow> parser \<times> sys \<Rightarrow> outcome \<times> parser \<times> sys" where
  "parse_command e command st =
     (case command of (cmd, i, a) \<Rightarrow>
      case st of (p, s) \<Rightarrow>
        if cmd = ''CREATE'' then
          (case create_kind a of
             Inl x \<Rightarrow> (Raised x, p, s)
           | Inr (Some kind) \<Rightarrow>
               (case classmap kind of
                  None \<Rightarrow> (Raised KeyError, p, s)
                | Some klass \<Rightarrow>
                    (let (ob, p1, s1) = construct e klass (p, s) in (Ok, register i ob p1, s1)))
           | Inr None \<Rightarrow> (Ok, p\<lparr>invalid_objects := insert i (invalid_objects p)\<rparr>, s))
        else if cmd = ''DELETE'' then
          (case objects p i of
             None \<Rightarrow> (Ok, p, s)
           | Some ob \<Rightarrow> object_delete ob (p, s))
        else
          (case objects p i of
             None \<Rightarrow>
               (Ok, p, if i \<notin> invalid_objects p then emit (Print_cannot cmd i) s else s)
           | Some ob \<Rightarrow>
               if cmd = ''ACTIVATE'' then object_activate (recursion_limit e) e ob (p, s)
               else if cmd = ''DEACTIVATE'' then object_deactivate ob (p, s)
               else if cmd = ''SIZE'' then call_set e ob ''size'' a (p, s)
               else if cmd = ''DATA'' then call_set e ob ''data'' a (p, s)
               else if cmd = ''SHADERS'' then call_set e ob ''shaders'' a (p, s)
               else if cmd = ''UNIFORM'' then call_set e ob ''uniform'' a (p, s)
               else if cmd = ''ATTRIBUTE'' then call_set e ob ''attribute'' a (p, s)
               else if cmd = ''DRAW'' then call_draw e ob a (p, s)
               else if cmd = ''SET'' then
                 (case a of
                    Args_set name a' \<Rightarrow> call_set e ob name a' (p, s)
                  | Args_none \<Rightarrow> (Raised IndexError, p, s)
                  | _ \<Rightarrow> (Raised TypeError, p, s))
               else (Ok, p, emit (Print_invalid_command cmd) s)))"

text \<open>\<^verbatim>\<open>GlirParser.parse(self, commands)\<close>: an exception ends the loop.\<close>

fun parse :: "env \<Rightarrow> command list \<Rightarrow> parser \<times> sys \<Rightarrow> outcome \<times> parser \<times> sys" where
  "parse e [] st = (Ok, st)"
| "parse e (command # commands) st =
     (case parse_command e command st of
        (Raised x, st1) \<Rightarrow> (Raised x, st1)
      | (Ok, st1) \<Rightarrow> parse e commands st1)"

subsection \<open>GlirQueue\<close>

record glir_queue =
  q_commands :: "command list"
  q_parser :: parser
  q_invalid_objects :: "int set"

definition GlirQueue_init :: glir_queue where
  "GlirQueue_init = \<lparr>q_commands = [], q_parser = GlirParser_init, q_invalid_objects = {}\<rparr>"

text \<open>\<^verbatim>\<open>GlirQueue.command(self, *args)\<close>: \<^verbatim>\<open>args[-1] is None\<close> holds for a CREATE of kind None.\<close>

definition GlirQueue_command :: "command \<Rightarrow> glir_queue \<Rightarrow> glir_queue" where
  "GlirQueue_command command q =
     (case command of (cmd, i, a) \<Rightarrow>
        (let q1 = q\<lparr>q_commands := q_commands q @ [command]\<rparr>
         in if cmd = ''CREATE'' \<and> a = Args_kind None
            then q1\<lparr>q_invalid_objects := insert i (q_invalid_objects q1)\<rparr> else q1))"

definition GlirQueue_clear :: "glir_queue \<Rightarrow> command list \<times> glir_queue" where
  "GlirQueue_clear q = (q_commands q, q\<lparr>q_commands := []\<rparr>)"

definition GlirQueue_parse :: "env \<Rightarrow> glir_queue \<times> sys \<Rightarrow> outcome \<times> glir_queue \<times> sys" where
  "GlirQueue_parse e st =
     (case st of (q, s) \<Rightarrow>
        (let (commands, q1) = GlirQueue_clear q;
             (r, p1, s1) = parse e commands (q_parser q1, s)
         in (r, q1\<lparr>q_parser := p1\<rparr>, s1)))"

subsection \<open>Notions used in the statements\<close>

text \<open>The class of an object in the store; a buffer's class shows in its target.\<close>

fun object_class :: "glir_object \<Rightarrow> glir_class option" where
  "object_class (Buffer b) =
     (case buf_target b of
        Some GL_ARRAY_BUFFER \<Rightarrow> Some GlirVertexBuffer
      | Some GL_ELEMENT_ARRAY_BUFFER \<Rightarrow> Some GlirIndexBuffer
      | _ \<Rightarrow> None)"
| "object_class (Texture2D t) = Some GlirTexture2D"
| "object_class (Texture3D t) = Some GlirTexture3D"
| "object_class (Program pr) = Some GlirProgram"

text \<open>
  The program the native pipeline has current after a list of calls: the argument of the
  last \<^verbatim>\<open>glUseProgram\<close>, 0 when there was none.
\<close>

definition native_current_program :: "gl_call list \<Rightarrow> nat" where
  "native_current_program tr =
     (case filter (\<lambda>c. case c of GlUseProgram h \<Rightarrow> True | _ \<Rightarrow> False) tr of
        [] \<Rightarrow> 0
      | cs \<Rightarrow> (case last cs of GlUseProgram h \<Rightarrow> h | _ \<Rightarrow> 0))"

text \<open>
  The answers of the native API to the calls \<open>func 0\<close>, ..., \<open>func (n - 1)\<close>, made in this
  order after the calls \<open>tr\<close>.
\<close>

definition active_answers ::
    "env \<Rightarrow> (nat \<Rightarrow> gl_call) \<Rightarrow> nat \<Rightarrow> gl_call list \<Rightarrow> (string \<times> int \<times> nat) list" where
  "active_answers e func n tr = map (\<lambda>k. gl_active e (tr @ map func [0..<Suc k])) [0..<n]"

text \<open>
  The calls a \<^verbatim>\<open>set_shaders\<close> that compiles and links has made, after the calls \<open>tr\<close>, when
  it turns to \<^verbatim>\<open>_get_active_attributes_and_uniforms\<close>.
\<close>

definition set_shaders_calls :: "env \<Rightarrow> nat \<Rightarrow> string \<Rightarrow> string \<Rightarrow> gl_call list \<Rightarrow> gl_call list"
  where
  "set_shaders_calls e h vert frag tr =
     (let vert_handle = gl_name e (tr @ [GlCreateShader GL_VERTEX_SHADER]);
          frag_handle = gl_name e (tr @ [GlCreateShader GL_VERTEX_SHADER,
                                        GlCreateShader GL_FRAGMENT_SHADER])
      in tr @ [GlCreateShader GL_VERTEX_SHADER, GlCreateShader GL_FRAGMENT_SHADER,
               GlShaderSource vert_handle vert, GlCompileShader vert_handle,
               GlGetShaderParameter vert_handle GL_COMPILE_STATUS,
               GlShaderSource frag_handle frag, GlCompileShader frag_handle,
               GlGetShaderParameter frag_handle GL_COMPILE_STATUS,
               GlAttachShader h vert_handle, GlAttachShader h frag_handle,
               GlLinkProgram h, GlGetProgramParameter h GL_LINK_STATUS,
               GlDetachShader h vert_handle, GlDetachShader h frag_handle,
               GlDeleteShader vert_handle, GlDeleteShader frag_handle])"

text \<open>
  The calls \<^verbatim>\<open>_get_active_attributes_and_uniforms\<close> makes for the program with native name
  \<open>h\<close> after the calls \<open>tr\<close>.
\<close>

definition active_variable_calls :: "env \<Rightarrow> nat \<Rightarrow> gl_call list \<Rightarrow> gl_call list" where
  "active_variable_calls e h tr =
     (let tr1 = tr @ [GlGetProgramParameter h GL_ACTIVE_UNIFORMS];
          cu = nat (gl_int e tr1);
          tr2 = tr1 @ [GlGetProgramParameter h GL_ACTIVE_ATTRIBUTES];
          ca = nat (gl_int e tr2)
      in tr2 @ map (GlGetActiveAttrib h) [0..<ca] @ map (GlGetActiveUniform h) [0..<cu])"


text \<open>
  The texture units in the sampler table of the object at a reference (none when the object
  is not a program), and the property that each program's units are pairwise distinct.
\<close>

definition sampler_units :: "parser \<Rightarrow> ref \<Rightarrow> int list" where
  "sampler_units p r = map (\<lambda>s. snd (snd s)) (samplers (prog_of p r))"


text \<open>Two states of the parser with the same registry and the same invalid set.\<close>

definition same_registry :: "parser \<Rightarrow> parser \<Rightarrow> bool" where
  "same_registry p p' = (objects p' = objects p \<and> invalid_objects p' = invalid_objects p)"

text \<open>
  The names \<^verbatim>\<open>_get_active_attributes_and_uniforms\<close> collects for the program with native
  name \<open>h\<close> when it runs after the calls \<open>tr\<close>: it asks for the two counts, then for each
  active attribute and each active uniform in turn.
\<close>

definition active_variable_names :: "env \<Rightarrow> nat \<Rightarrow> gl_call list \<Rightarrow> string set" where
  "active_variable_names e h tr =
     (let tr1 = tr @ [GlGetProgramParameter h GL_ACTIVE_UNIFORMS];
          cu = nat (gl_int e tr1);
          tr2 = tr1 @ [GlGetProgramParameter h GL_ACTIVE_ATTRIBUTES];
          ca = nat (gl_int e tr2);
          tr3 = tr2 @ map (GlGetActiveAttrib h) [0..<ca]
      in set (concat (map active_names (active_answers e (GlGetActiveAttrib h) ca tr2))) \<union>
         set (concat (map active_names (active_answers e (GlGetActiveUniform h) cu tr3))))"

section \<open>Properties\<close>

subsection \<open>Running the interpreter on given commands\<close>

lemmas eval_defs =
  parse_command_def classmap_def construct_def register_def object_delete_def
  object_deactivate_def call_set_def call_draw_def
  GlirVertexBuffer_init_def GlirIndexBuffer_init_def GlirBuffer_init_def
  GlirBuffer_delete_def GlirBuffer_activate_def GlirBuffer_deactivate_def GlirBuffer_set_size_def
  GlirTexture2D_init_def GlirTexture3D_init_def GlirTexture_init_def GlirTexture_delete_def
  GlirTexture_activate_def GlirTexture_deactivate_def GlirTexture2D_set_size_def
  GlirTexture3D_set_size_def GlirTexture3D_set_data_def GlirTexture3D_self_dtype_def
  glTexImage3D_def
  GlirProgram_init_def GlirProgram_delete_def use_this_program_def GlirProgram_validate_def
  GlirProgram_set_uniform_def set_uniform_value_def GlirProgram_set_shaders_def
  compile_shader_def get_active_attributes_and_uniforms_def UTYPEMAP_def get_free_unit_def
  dict_pop_def prog_of_def upd_program_def get_object_def
  GlirParser_init_def sys0_def demo_env_def gl_def emit_def Let_def

lemma object_activate_numeral:
  "object_activate (numeral k) e r (p, s) =
     (case heap p r of
        None \<Rightarrow> (Raised AttributeError, p, s)
      | Some (Buffer b) \<Rightarrow> (Ok, p, GlirBuffer_activate b s)
      | Some (Texture2D t) \<Rightarrow> (Ok, p, GlirTexture_activate t s)
      | Some (Texture3D t) \<Rightarrow> (Ok, p, GlirTexture_activate t s)
      | Some (Program pr) \<Rightarrow>
          (case use_this_program r (p, s) of
             (Raised x, st1) \<Rightarrow> (Raised x, st1)
           | (Ok, st1) \<Rightarrow>
               (case activate_samplers (pred_numeral k) e (samplers pr) st1 of
                  (Raised x, st2) \<Rightarrow> (Raised x, st2)
                | (Ok, st2) \<Rightarrow>
                    (case activate_buffers (pred_numeral k) e (buffers pr) st2 of
                       (Raised x, st3) \<Rightarrow> (Raised x, st3)
                     | (Ok, st3) \<Rightarrow> GlirProgram_validate e r st3))))"
  by (simp add: numeral_eq_Suc)

subsection \<open>The registry and the dispatch loop\<close>

lemma parse_command_delete:
  "parse_command e (''DELETE'', i, a) (p, s) =
     (case objects p i of None \<Rightarrow> (Ok, p, s) | Some ob \<Rightarrow> object_delete ob (p, s))"
  by (simp add: parse_command_def)

lemma object_delete_same:
  "object_delete r (p, s) = (res, p', s') \<Longrightarrow> p' = p"
  by (auto simp: object_delete_def split: option.splits glir_object.splits)

lemma parse_command_delete_keeps_registry:
  "parse_command e (''DELETE'', i, a) (p, s) = (res, p', s') \<Longrightarrow> p' = p"
  by (auto simp: parse_command_delete split: option.splits dest: object_delete_same)

text \<open>
  C1. The claim does not hold of the code: DELETE calls the object's \<^verbatim>\<open>delete()\<close> and leaves
  the object in the registry. After CREATE, DELETE, ACTIVATE on handle 1 the handle is
  still registered, the ACTIVATE is carried out on the deleted buffer (the native name 1 is
  bound after it was deleted) and no diagnostic is printed.
\<close>

theorem delete_keeps_handle_registered: "(case parse demo_env
     [(''CREATE'', 1, Args_kind (Some ''VERTEXBUFFER'')),
      (''DELETE'', 1, Args_none),
      (''ACTIVATE'', 1, Args_none)] (GlirParser_init, sys0) of (r, p, s) \<Rightarrow>
      r = Ok \<and> objects p 1 = Some 0 \<and> 
      gl_trace s = [GlCreateBuffer, GlDeleteBuffer 1, GlBindBuffer (Some GL_ARRAY_BUFFER) 1] \<and> diags s = [])"
  by (simp add: eval_defs object_activate_numeral)

lemma parse_command_invalid:
  assumes "h \<in> invalid_objects p" "objects p h = None" "cmd \<noteq> ''CREATE''"
  shows "parse_command e (cmd, h, a) (p, s) = (Ok, p, s)"
  using assms by (simp add: parse_command_def)

lemma parse_invalid:
  assumes "h \<in> invalid_objects p" "objects p h = None"
    and "\<forall>c\<in>set cmds. fst c \<noteq> ''CREATE'' \<and> fst (snd c) = h"
  shows "parse e cmds (p, s) = (Ok, p, s)"
  using assms(3)
proof (induction cmds)
  case Nil
  show ?case by simp
next
  case (Cons c cmds)
  obtain cmd i a where c: "c = (cmd, i, a)" by (cases c)
  with Cons.prems have "cmd \<noteq> ''CREATE''" "i = h" by auto
  then have "parse_command e c (p, s) = (Ok, p, s)"
    using assms(1,2) c by (simp add: parse_command_invalid)
  then show ?case using Cons by simp
qed

lemma parse_command_create_None:
  "parse_command e (''CREATE'', h, Args_kind None) (p, s) =
     (Ok, p\<lparr>invalid_objects := insert h (invalid_objects p)\<rparr>, s)"
  by (simp add: parse_command_def)

lemma parse_command_create_Some:
  "parse_command e (''CREATE'', h, Args_kind (Some kind)) (p, s) =
     (case classmap kind of
        None \<Rightarrow> (Raised KeyError, p, s)
      | Some klass \<Rightarrow> (let (ob, p1, s1) = construct e klass (p, s) in (Ok, register h ob p1, s1)))"
  by (simp add: parse_command_def)

lemma object_deactivate_same:
  "object_deactivate r (p, s) = (res, p', s') \<Longrightarrow> p' = p"
  by (auto simp: object_deactivate_def split: option.splits glir_object.splits)

lemma construct_class:
  "construct e klass (p, s) = (ob, p1, s1) \<Longrightarrow>
     object_class ob = Some klass \<and> objects p1 = objects p \<and> next_ref p1 = next_ref p \<and>
     heap p1 = heap p \<and> invalid_objects p1 = invalid_objects p"
  by (cases klass)
     (auto simp: construct_def GlirVertexBuffer_init_def GlirIndexBuffer_init_def
        GlirBuffer_init_def GlirTexture2D_init_def GlirTexture3D_init_def GlirTexture_init_def
        GlirProgram_init_def Let_def split: prod.splits)

lemma upd_program_registry [simp]:
  "objects (upd_program r f p) = objects p"
  "invalid_objects (upd_program r f p) = invalid_objects p"
  by (auto simp: upd_program_def split: option.splits glir_object.splits)

lemma same_registry_refl [simp]: "same_registry p p"
  by (simp add: same_registry_def)

lemma same_registry_trans: "same_registry p p1 \<Longrightarrow> same_registry p1 p2 \<Longrightarrow> same_registry p p2"
  by (simp add: same_registry_def)

lemma use_this_program_registry:
  "use_this_program self (p, s) = (r, p', s') \<Longrightarrow> same_registry p p'"
  by (auto simp: use_this_program_def same_registry_def split: option.splits if_splits)

lemma validate_registry:
  "GlirProgram_validate e self (p, s) = (r, p', s') \<Longrightarrow> same_registry p p'"
  by (auto simp: GlirProgram_validate_def Let_def same_registry_def split: if_splits)

lemma activate_registry:
  "object_activate n e r st = (res, p', s') \<Longrightarrow> same_registry (fst st) p'"
  "activate_samplers n e smps st = (res, p', s') \<Longrightarrow> same_registry (fst st) p'"
  "activate_buffers n e bufs st = (res, p', s') \<Longrightarrow> same_registry (fst st) p'"
proof (induction n e r st and n e smps st and n e bufs st
    arbitrary: res p' s' and res p' s' and res p' s'
    rule: object_activate_activate_samplers_activate_buffers.induct)
  case (1 e r p s)
  then show ?case by simp
next
  case (2 n e r p s)
  show ?case
  proof (cases "heap p r")
    case None
    with 2 show ?thesis by simp
  next
    case (Some ob)
    show ?thesis
    proof (cases ob)
      case (Program pr)
      obtain r1 p1 s1 where u: "use_this_program r (p, s) = (r1, p1, s1)"
        by (cases "use_this_program r (p, s)")
      have u1: "same_registry p p1" using u by (rule use_this_program_registry)
      show ?thesis
      proof (cases r1)
        case (Raised x)
        with "2.prems" Some Program u u1 show ?thesis by simp
      next
        case Ok
        obtain r2 p2 s2 where a: "activate_samplers n e (samplers pr) (p1, s1) = (r2, p2, s2)"
          by (cases "activate_samplers n e (samplers pr) (p1, s1)")
        have "same_registry p1 p2"
          using "2.IH"(1) [OF Some Program u [symmetric] Ok a] by simp
        with u1 have a1: "same_registry p p2" by (rule same_registry_trans)
        show ?thesis
        proof (cases r2)
          case (Raised x)
          with "2.prems" Some Program u Ok a a1 show ?thesis by simp
        next
          case Ok2: Ok
          obtain r3 p3 s3 where b: "activate_buffers n e (buffers pr) (p2, s2) = (r3, p3, s3)"
            by (cases "activate_buffers n e (buffers pr) (p2, s2)")
          have "same_registry p2 p3"
            using "2.IH"(2) [OF Some Program u [symmetric] Ok a [symmetric] Ok2 b] by simp
          with a1 have b1: "same_registry p p3" by (rule same_registry_trans)
          show ?thesis
          proof (cases r3)
            case (Raised x)
            with "2.prems" Some Program u Ok a Ok2 b b1 show ?thesis by simp
          next
            case Ok3: Ok
            have "GlirProgram_validate e r (p3, s3) = (res, p', s')"
              using "2.prems" Some Program u Ok a Ok2 b Ok3 by simp
            then have "same_registry p3 p'" by (rule validate_registry)
            with b1 show ?thesis by (simp add: same_registry_def)
          qed
        qed
      qed
    qed (use 2 Some in auto)
  qed
next
  case (3 n e st)
  then show ?case by simp
next
  case (4 n e name tex unit rest p s)
  obtain r1 p1 s1 where a: "object_activate n e tex (p, gl (GlActiveTexture unit) s) = (r1, p1, s1)"
    by (cases "object_activate n e tex (p, gl (GlActiveTexture unit) s)")
  have a1: "same_registry p p1" using "4.IH"(1) [OF a] by simp
  show ?case
  proof (cases r1)
    case (Raised x)
    with "4.prems" a a1 show ?thesis by simp
  next
    case Ok
    with "4.prems" a have "activate_samplers n e rest (p1, s1) = (res, p', s')" by simp
    from "4.IH"(2) [OF a [symmetric] Ok this] a1 show ?thesis by (simp add: same_registry_def)
  qed
next
  case (5 n e st)
  then show ?case by simp
next
  case (6 n e name vbo rest p s)
  obtain r1 p1 s1 where a: "object_activate n e vbo (p, s) = (r1, p1, s1)"
    by (cases "object_activate n e vbo (p, s)")
  have a1: "same_registry p p1" using "6.IH"(1) [OF a] by simp
  show ?case
  proof (cases r1)
    case (Raised x)
    with "6.prems" a a1 show ?thesis by simp
  next
    case Ok
    with "6.prems" a have "activate_buffers n e rest (p1, s1) = (res, p', s')" by simp
    from "6.IH"(2) [OF a [symmetric] Ok this] a1 show ?thesis by (simp add: same_registry_def)
  qed
qed

lemma object_activate_registry:
  "object_activate n e r (p, s) = (res, p', s') \<Longrightarrow> same_registry p p'"
  using activate_registry(1) [of n e r "(p, s)" res p' s'] by simp

lemma set_shaders_registry:
  "GlirProgram_set_shaders e self vert frag (p, s) = (res, p', s') \<Longrightarrow> same_registry p p'"
  by (auto simp: GlirProgram_set_shaders_def Let_def same_registry_def
      split: prod.splits outcome.splits if_splits)

lemma set_uniform_value_registry:
  "set_uniform_value e self name type val handle (p, s) = (res, p', s') \<Longrightarrow> same_registry p p'"
  by (auto simp: set_uniform_value_def Let_def same_registry_def
      split: option.splits outcome.splits prod.splits if_splits py_val.splits sum.splits
      dest!: use_this_program_registry)

lemma set_uniform_registry:
  "GlirProgram_set_uniform e self name type val (p, s) = (res, p', s') \<Longrightarrow> same_registry p p'"
  by (auto simp: GlirProgram_set_uniform_def Let_def same_registry_def split: if_splits
      dest!: set_uniform_value_registry)

lemma set_attribute_value_registry:
  "set_attribute_value e self name type val handle (p, s) = (res, p', s') \<Longrightarrow> same_registry p p'"
  by (auto simp: set_attribute_value_def Let_def same_registry_def
      split: outcome.splits list.splits py_val.splits if_splits option.splits prod.splits
      dest!: object_activate_registry use_this_program_registry)

lemma set_attribute_registry:
  "GlirProgram_set_attribute e self name type val (p, s) = (res, p', s') \<Longrightarrow> same_registry p p'"
  by (auto simp: GlirProgram_set_attribute_def Let_def same_registry_def split: if_splits
      dest!: set_attribute_value_registry)

lemma draw_selection_registry:
  "draw_selection e mode selection (p, s) = (res, p', s') \<Longrightarrow> same_registry p p'"
  by (auto simp: draw_selection_def same_registry_def
      split: if_splits list.splits py_val.splits option.splits outcome.splits prod.splits
      dest!: object_activate_registry object_deactivate_same)

lemma draw_registry:
  "GlirProgram_draw e self mode selection (p, s) = (res, p', s') \<Longrightarrow> same_registry p p'"
  by (auto simp: GlirProgram_draw_def same_registry_def
      split: outcome.splits prod.splits
      dest!: object_activate_registry object_deactivate_same draw_selection_registry)

lemma call_set_registry:
  "call_set e ob name a (p, s) = (res, p', s') \<Longrightarrow> same_registry p p'"
  by (cases "heap p ob")
     (auto simp: call_set_def split: glir_object.splits if_splits args.splits prod.splits
      dest: set_shaders_registry set_uniform_registry set_attribute_registry
      simp: same_registry_def)

lemma call_draw_registry:
  "call_draw e ob a (p, s) = (res, p', s') \<Longrightarrow> same_registry p p'"
  by (auto simp: call_draw_def split: option.splits glir_object.splits args.splits
      dest!: draw_registry)

lemma parse_command_other_handle:
  assumes "i \<noteq> h" and run: "parse_command e (cmd, i, a) (p, s) = (res, p', s')"
  shows "objects p' h = objects p h \<and> (h \<in> invalid_objects p \<longrightarrow> h \<in> invalid_objects p')"
proof (cases "cmd = ''CREATE''")
  case True
  show ?thesis
  proof (cases "create_kind a")
    case (Inl x)
    with run True show ?thesis by (simp add: parse_command_def)
  next
    case (Inr k)
    show ?thesis
    proof (cases k)
      case None
      with run True Inr show ?thesis by (auto simp: parse_command_def)
    next
      case (Some kind)
      show ?thesis
      proof (cases "classmap kind")
        case None
        with run True Inr Some show ?thesis by (simp add: parse_command_def)
      next
        case Some': (Some klass)
        obtain ob p1 s1 where k: "construct e klass (p, s) = (ob, p1, s1)"
          by (cases "construct e klass (p, s)")
        from construct_class [OF k] run True Inr Some Some' k assms(1) show ?thesis
          by (auto simp: parse_command_def register_def)
      qed
    qed
  qed
next
  case nc: False
  show ?thesis
  proof (cases "cmd = ''DELETE''")
    case True
    have "p' = p" using run nc True
      by (auto simp: parse_command_def split: option.splits dest: object_delete_same)
    then show ?thesis by simp
  next
    case nd: False
    show ?thesis
    proof (cases "objects p i")
      case None
      with run nc nd show ?thesis by (simp add: parse_command_def)
    next
      case (Some ob)
      have "same_registry p p'"
        using run nc nd Some
        by (auto simp: parse_command_def split: if_splits args.splits
            dest: object_activate_registry call_draw_registry call_set_registry
                  object_deactivate_same)
      then show ?thesis by (simp add: same_registry_def)
    qed
  qed
qed

lemma parse_erase_invalid:
  assumes "\<forall>c\<in>set cmds. \<not> (fst c = ''CREATE'' \<and> fst (snd c) = h)"
  shows "h \<in> invalid_objects p \<Longrightarrow> objects p h = None \<Longrightarrow>
         parse e cmds (p, s) = parse e (filter (\<lambda>c. fst (snd c) \<noteq> h) cmds) (p, s)"
  using assms
proof (induction cmds arbitrary: p s)
  case Nil
  show ?case by simp
next
  case (Cons c cmds)
  obtain cmd i a where c: "c = (cmd, i, a)" by (cases c)
  have rest: "\<forall>c\<in>set cmds. \<not> (fst c = ''CREATE'' \<and> fst (snd c) = h)"
    using Cons.prems(3) by simp
  show ?case
  proof (cases "i = h")
    case True
    with Cons.prems(3) c have "cmd \<noteq> ''CREATE''" by auto
    then have "parse_command e c (p, s) = (Ok, p, s)"
      using Cons.prems(1,2) c True by (simp add: parse_command_invalid)
    then show ?thesis using Cons.IH [OF Cons.prems(1,2) rest] c True by simp
  next
    case False
    obtain r1 p1 s1 where pc: "parse_command e c (p, s) = (r1, p1, s1)"
      by (cases "parse_command e c (p, s)")
    show ?thesis
    proof (cases r1)
      case (Raised x)
      with pc c False show ?thesis by simp
    next
      case Ok
      from parse_command_other_handle [OF False pc [unfolded c]] Cons.prems(1,2)
      have "h \<in> invalid_objects p1" "objects p1 h = None" by simp_all
      from Cons.IH [OF this rest] pc Ok c False show ?thesis by simp
    qed
  qed
qed

text \<open>
  C2, as amended. Take a handle h that has no registered object when CREATE(h, None) marks
  it invalid, and any commands after it, on any handles, none of them a CREATE on h. The
  commands on h among them are dropped silently: the run is the run of the list without
  them, with the same outcome, parser state, native calls and diagnostics; when all of
  them are on h, nothing at all happens after the marking. CREATE itself does not look at
  the invalid set: on an invalid handle, with a kind of the class map, it constructs the
  object and registers it.
\<close>

theorem invalid_handle_commands_dropped:
  assumes "objects p h = None"
    and "\<forall>c\<in>set cmds. \<not> (fst c = ''CREATE'' \<and> fst (snd c) = h)"
  shows "parse e ((''CREATE'', h, Args_kind None) # cmds) (p, s) =
           parse e ((''CREATE'', h, Args_kind None) # filter (\<lambda>c. fst (snd c) \<noteq> h) cmds) (p, s) \<and>
         ((\<forall>c\<in>set cmds. fst (snd c) = h) \<longrightarrow>
            parse e ((''CREATE'', h, Args_kind None) # cmds) (p, s) =
              (Ok, p\<lparr>invalid_objects := insert h (invalid_objects p)\<rparr>, s)) \<and>
         (case classmap kind of
            None \<Rightarrow> True
          | Some klass \<Rightarrow>
              parse_command e (''CREATE'', h, Args_kind (Some kind))
                  (p\<lparr>invalid_objects := insert h (invalid_objects p)\<rparr>, s) =
                (let (ob, p1, s1) =
                       construct e klass (p\<lparr>invalid_objects := insert h (invalid_objects p)\<rparr>, s)
                 in (Ok, register h ob p1, s1)))"
proof -
  let ?p = "p\<lparr>invalid_objects := insert h (invalid_objects p)\<rparr>"
  have i: "h \<in> invalid_objects ?p" and o: "objects ?p h = None"
    using assms(1) by simp_all
  have erase: "parse e cmds (?p, s) = parse e (filter (\<lambda>c. fst (snd c) \<noteq> h) cmds) (?p, s)"
    using assms(2) i o by (rule parse_erase_invalid)
  have all_h: "parse e cmds (?p, s) = (Ok, ?p, s)" if "\<forall>c\<in>set cmds. fst (snd c) = h"
  proof -
    from that have "filter (\<lambda>c. fst (snd c) \<noteq> h) cmds = []" by (simp add: filter_empty_conv)
    with erase show ?thesis by simp
  qed
  show ?thesis using erase all_h
    by (simp add: parse_command_create_None parse_command_create_Some split: option.splits)
qed

theorem invalid_handle_commands_dropped_witness:
  "objects GlirParser_init 7 = None \<and>
   parse demo_env
     [(''CREATE'', 7, Args_kind None), (''ACTIVATE'', 7, Args_none),
      (''CREATE'', 1, Args_kind (Some ''VERTEXBUFFER'')), (''DELETE'', 7, Args_none),
      (''SIZE'', 1, Args_nbytes 4), (''SIZE'', 7, Args_nbytes 4)] (GlirParser_init, sys0) =
   parse demo_env
     [(''CREATE'', 7, Args_kind None),
      (''CREATE'', 1, Args_kind (Some ''VERTEXBUFFER'')),
      (''SIZE'', 1, Args_nbytes 4)] (GlirParser_init, sys0)"
proof -
  have h: "objects GlirParser_init 7 = None" by (simp add: GlirParser_init_def)
  have c: "\<forall>c\<in>set [(''ACTIVATE'', 7, Args_none),
      (''CREATE'', 1, Args_kind (Some ''VERTEXBUFFER'')), (''DELETE'', 7, Args_none),
      (''SIZE'', 1, Args_nbytes 4), (''SIZE'', 7, Args_nbytes 4)].
        \<not> (fst c = ''CREATE'' \<and> fst (snd c) = (7::int))" by simp
  from invalid_handle_commands_dropped [OF h c, of demo_env sys0, THEN conjunct1]
  have "parse demo_env
     ((''CREATE'', 7, Args_kind None) # [(''ACTIVATE'', 7, Args_none),
      (''CREATE'', 1, Args_kind (Some ''VERTEXBUFFER'')), (''DELETE'', 7, Args_none),
      (''SIZE'', 1, Args_nbytes 4), (''SIZE'', 7, Args_nbytes 4)]) (GlirParser_init, sys0) =
   parse demo_env
     ((''CREATE'', 7, Args_kind None) # filter (\<lambda>c. fst (snd c) \<noteq> 7) [(''ACTIVATE'', 7, Args_none),
      (''CREATE'', 1, Args_kind (Some ''VERTEXBUFFER'')), (''DELETE'', 7, Args_none),
      (''SIZE'', 1, Args_nbytes 4), (''SIZE'', 7, Args_nbytes 4)]) (GlirParser_init, sys0)" .
  moreover have "filter (\<lambda>c. fst (snd c) \<noteq> (7::int)) [(''ACTIVATE'', 7, Args_none),
      (''CREATE'', 1, Args_kind (Some ''VERTEXBUFFER'')), (''DELETE'', 7, Args_none),
      (''SIZE'', 1, Args_nbytes 4), (''SIZE'', 7, Args_nbytes 4)] =
      [(''CREATE'', 1, Args_kind (Some ''VERTEXBUFFER'')), (''SIZE'', 1, Args_nbytes 4)]"
    by simp
  ultimately show ?thesis using h by (simp only: simp_thms)
qed

text \<open>
  Handle 7 is marked invalid and then created as a vertex buffer: the buffer is
  constructed, registered and activated.
\<close>

theorem invalid_handle_created_counterexample: "(case parse demo_env
     [(''CREATE'', 7, Args_kind None),
      (''CREATE'', 7, Args_kind (Some ''VERTEXBUFFER'')),
      (''ACTIVATE'', 7, Args_none)] (GlirParser_init, sys0) of (r, p, s) \<Rightarrow>
      r = Ok \<and> 7 \<in> invalid_objects p \<and> objects p 7 = Some 0 \<and>
      gl_trace s = [GlCreateBuffer, GlBindBuffer (Some GL_ARRAY_BUFFER) 1] \<and> diags s = [])"
  by (simp add: eval_defs object_activate_numeral)

lemma classmap_dom:
  "dom classmap = {''VERTEXBUFFER'', ''INDEXBUFFER'', ''PROGRAM'', ''Texture2D'', ''Texture3D''}"
  by (auto simp: classmap_def dom_def split: if_splits)

text \<open>
  C3, as amended. The keys of the class map are VERTEXBUFFER, INDEXBUFFER, PROGRAM,
  Texture2D and Texture3D, the two texture kinds in mixed case. For each of these five a
  CREATE constructs an object of the class the map gives and registers it under the
  handle; for every other kind that is not None, TEXTURE2D and TEXTURE3D among them, the
  lookup raises KeyError and nothing changes.
\<close>

theorem create_kind_lookup:
  "classmap ''VERTEXBUFFER'' = Some GlirVertexBuffer \<and>
   classmap ''INDEXBUFFER'' = Some GlirIndexBuffer \<and>
   classmap ''PROGRAM'' = Some GlirProgram \<and>
   classmap ''Texture2D'' = Some GlirTexture2D \<and>
   classmap ''Texture3D'' = Some GlirTexture3D \<and>
   (case classmap kind of
      None \<Rightarrow>
        kind \<notin> {''VERTEXBUFFER'', ''INDEXBUFFER'', ''PROGRAM'', ''Texture2D'', ''Texture3D''} \<and>
        parse_command e (''CREATE'', i, Args_kind (Some kind)) (p, s) = (Raised KeyError, p, s)
    | Some klass \<Rightarrow>
        kind \<in> {''VERTEXBUFFER'', ''INDEXBUFFER'', ''PROGRAM'', ''Texture2D'', ''Texture3D''} \<and>
        (case parse_command e (''CREATE'', i, Args_kind (Some kind)) (p, s) of
           (r, p', s') \<Rightarrow>
             r = Ok \<and> objects p' = (objects p)(i \<mapsto> next_ref p) \<and>
             map_option object_class (heap p' (next_ref p)) = Some (Some klass)))"
proof -
  have maps: "classmap ''VERTEXBUFFER'' = Some GlirVertexBuffer"
    "classmap ''INDEXBUFFER'' = Some GlirIndexBuffer"
    "classmap ''PROGRAM'' = Some GlirProgram"
    "classmap ''Texture2D'' = Some GlirTexture2D"
    "classmap ''Texture3D'' = Some GlirTexture3D"
    by (simp_all add: classmap_def)
  have look: "(case classmap kind of
      None \<Rightarrow>
        kind \<notin> {''VERTEXBUFFER'', ''INDEXBUFFER'', ''PROGRAM'', ''Texture2D'', ''Texture3D''} \<and>
        parse_command e (''CREATE'', i, Args_kind (Some kind)) (p, s) = (Raised KeyError, p, s)
    | Some klass \<Rightarrow>
        kind \<in> {''VERTEXBUFFER'', ''INDEXBUFFER'', ''PROGRAM'', ''Texture2D'', ''Texture3D''} \<and>
        (case parse_command e (''CREATE'', i, Args_kind (Some kind)) (p, s) of
           (r, p', s') \<Rightarrow>
             r = Ok \<and> objects p' = (objects p)(i \<mapsto> next_ref p) \<and>
             map_option object_class (heap p' (next_ref p)) = Some (Some klass)))"
  proof (cases "classmap kind")
    case None
    then have "kind \<notin> dom classmap" by (simp add: dom_def)
    then show ?thesis using None by (simp add: classmap_dom parse_command_create_Some)
  next
    case (Some klass)
    then have k: "kind \<in> dom classmap" by (auto simp: dom_def)
    obtain ob p1 s1 where c: "construct e klass (p, s) = (ob, p1, s1)"
      by (cases "construct e klass (p, s)")
    from construct_class [OF c] k Some c show ?thesis
      by (simp add: classmap_dom [symmetric] parse_command_create_Some register_def
          del: insert_iff)
  qed
  from maps look show ?thesis by blast
qed

text \<open>A CREATE of the documented kind TEXTURE2D raises KeyError and creates nothing.\<close>

theorem create_TEXTURE2D_counterexample: "parse_command demo_env (''CREATE'', 1, Args_kind (Some ''TEXTURE2D''))
      (GlirParser_init, sys0) = (Raised KeyError, GlirParser_init, sys0)"
  by (simp add: parse_command_def classmap_def)

subsection \<open>Programs\<close>

lemma use_this_program_first:
  "current_program p = Some (Cur_int n) \<Longrightarrow>
   use_this_program self (p, s) =
     (Ok, p\<lparr>current_program := Some Cur_builtin_id\<rparr>,
      gl (GlUseProgram (prog_handle (prog_of p self))) s)"
  by (simp add: use_this_program_def)

lemma use_this_program_later:
  "current_program p = Some Cur_builtin_id \<Longrightarrow> use_this_program self (p, s) = (Ok, p, s)"
  by (simp add: use_this_program_def)

text \<open>
  C4. The claim does not hold of the code: \<^verbatim>\<open>use_this_program\<close> compares and stores the
  built-in \<^verbatim>\<open>id\<close>, not the program, so after the first call for any program no call for
  any program issues \<^verbatim>\<open>glUseProgram\<close>. Two programs are created and activated in turn: the
  second activation (of the program with native name 2) issues no \<^verbatim>\<open>glUseProgram\<close>, and the
  native pipeline is left with program 1 current.
\<close>

theorem activate_second_program_not_current: "(case parse demo_env
     [(''CREATE'', 1, Args_kind (Some ''PROGRAM'')),
      (''CREATE'', 2, Args_kind (Some ''PROGRAM'')),
      (''ACTIVATE'', 1, Args_none),
      (''ACTIVATE'', 2, Args_none)] (GlirParser_init, sys0) of (r, p, s) \<Rightarrow>
     r = Ok \<and> 
     map_option (\<lambda>r. prog_handle (prog_of p r)) (objects p 2) = Some 2 \<and>
     gl_trace s = [GlCreateProgram, GlCreateProgram, GlUseProgram 1, GlValidateProgram 1,
        GlGetProgramParameter 1 GL_VALIDATE_STATUS, GlValidateProgram 2,
        GlGetProgramParameter 2 GL_VALIDATE_STATUS] \<and>
     native_current_program (gl_trace s) = 1)"
  by (simp add: eval_defs object_activate_numeral native_current_program_def)

lemma get_active_take:
  "get_active e func is s =
     (concat (map (\<lambda>k. active_names (gl_active e (gl_trace s @ map func (take (Suc k) is))))
                [0..<length is]),
      s\<lparr>gl_trace := gl_trace s @ map func is\<rparr>)"
proof (induction "is" arbitrary: s)
  case Nil
  show ?case by simp
next
  case (Cons i rest)
  have up: "[0..<Suc (length rest)] = 0 # map Suc [0..<length rest]"
    by (simp add: upt_conv_Cons map_Suc_upt del: upt_Suc)
  show ?case
    by (simp add: Cons.IH gl_def Let_def up comp_def del: upt_Suc)
qed

lemma get_active_answers:
  "get_active e func [0..<n] s =
     (concat (map active_names (active_answers e func n (gl_trace s))),
      s\<lparr>gl_trace := gl_trace s @ map func [0..<n]\<rparr>)"
proof -
  have "take (Suc k) [0..<n] = [0..<Suc k]" if "k < n" for k
    using that by (simp add: take_upt del: upt_Suc)
  then have "map (\<lambda>k. active_names (gl_active e (gl_trace s @ map func (take (Suc k) [0..<n]))))
               [0..<n] =
             map active_names (active_answers e func n (gl_trace s))"
    by (simp add: active_answers_def del: upt_Suc)
  then show ?thesis by (simp add: get_active_take del: upt_Suc)
qed

lemma not_word_bracket: "\<not> is_word CHR ''[''" "\<not> is_space CHR ''[''" "\<not> is_digit CHR '']''"
  by (simp_all add: is_word_def is_space_def is_digit_def)

lemma regex_match_name_array:
  assumes "nm \<noteq> []" "\<forall>c\<in>set nm. is_word c" "ds \<noteq> []" "\<forall>c\<in>set ds. is_digit c"
  shows "regex_match_name (nm @ ''['' @ ds @ '']'' @ rest) = Some nm"
proof -
  have w: "takeWhile is_word (nm @ CHR ''['' # ds @ CHR '']'' # rest) = nm"
    using assms(2) by (simp add: takeWhile_append2 not_word_bracket)
  have d: "dropWhile is_word (nm @ CHR ''['' # ds @ CHR '']'' # rest) = CHR ''['' # ds @ CHR '']'' # rest"
    using assms(2) by (simp add: dropWhile_append2 not_word_bracket)
  have td: "takeWhile is_digit (ds @ CHR '']'' # rest) = ds"
    using assms(4) by (simp add: takeWhile_append2 not_word_bracket)
  have dd: "dropWhile is_digit (ds @ CHR '']'' # rest) = CHR '']'' # rest"
    using assms(4) by (simp add: dropWhile_append2 not_word_bracket)
  show ?thesis
    using assms(1,3) by (simp add: regex_match_name_def w d td dd not_word_bracket Let_def)
qed

lemma regex_match_name_plain:
  assumes "\<forall>c\<in>set name. is_word c"
  shows "regex_match_name name = None"
proof -
  have d: "dropWhile is_word name = []" using assms by simp
  show ?thesis unfolding regex_match_name_def Let_def d by simp
qed

lemma active_names_array:
  assumes "nm \<noteq> []" "\<forall>c\<in>set nm. is_word c" "ds \<noteq> []" "\<forall>c\<in>set ds. is_digit c"
  shows "active_names (nm @ ''['' @ ds @ '']'', sz, gtype) =
           map (\<lambda>j. nm @ ''['' @ string_of_nat j @ '']'') [0..<nat sz]"
  using regex_match_name_array [OF assms, of "[]"] by (simp add: active_names_def)

lemma active_names_plain:
  "\<forall>c\<in>set name. is_word c \<Longrightarrow> active_names (name, sz, gtype) = [name]"
  by (simp add: active_names_def regex_match_name_plain)

lemma active_names_example:
  "active_names (''color[0]'', 3, t) = [''color[0]'', ''color[1]'', ''color[2]'']"
  "active_names (''pos'', 1, t) = [''pos'']"
  by (simp_all add: active_names_def regex_match_name_def is_word_def is_space_def is_digit_def
      string_of_nat.simps upt_rec numeral_eq_Suc)

lemma get_active_attributes_and_uniforms_names:
  "fst (get_active_attributes_and_uniforms e pr s) =
     active_variable_names e (prog_handle pr) (gl_trace s)"
  by (simp add: get_active_attributes_and_uniforms_def active_variable_names_def
      get_active_answers gl_def Let_def del: upt_Suc)

lemma compile_shader_Ok:
  "compile_shader e code handle type s = (Ok, s') \<Longrightarrow>
     s' = s\<lparr>gl_trace := gl_trace s @ [GlShaderSource handle code, GlCompileShader handle,
                                      GlGetShaderParameter handle GL_COMPILE_STATUS]\<rparr>"
  by (auto simp: compile_shader_def gl_def Let_def split: if_splits)

lemma get_active_attributes_and_uniforms_calls:
  "snd (get_active_attributes_and_uniforms e pr s) =
     s\<lparr>gl_trace := active_variable_calls e (prog_handle pr) (gl_trace s)\<rparr>"
  by (simp add: get_active_attributes_and_uniforms_def active_variable_calls_def
      get_active_answers gl_def Let_def del: upt_Suc)

lemma set_shaders_Ok_explicit:
  assumes "heap p self = Some (Program pr)"
    and "GlirProgram_set_shaders e self vert frag (p, s) = (Ok, p', s')"
  shows "p' = upd_program self
               (\<lambda>q. q\<lparr>unset_variables :=
                         active_variable_names e (prog_handle pr)
                           (set_shaders_calls e (prog_handle pr) vert frag (gl_trace s)),
                       handles := Map.empty\<rparr>) p \<and>
         s' = s\<lparr>gl_trace := active_variable_calls e (prog_handle pr)
                              (set_shaders_calls e (prog_handle pr) vert frag (gl_trace s))\<rparr>"
proof -
  let ?h = "prog_handle pr"
  let ?s1 = "gl (GlCreateShader GL_VERTEX_SHADER) s"
  let ?vh = "gl_name e (gl_trace ?s1)"
  let ?s2 = "gl (GlCreateShader GL_FRAGMENT_SHADER) ?s1"
  let ?fh = "gl_name e (gl_trace ?s2)"
  have ph: "prog_of p self = pr" using assms(1) by (simp add: prog_of_def)
  obtain r3 s3 where c1: "compile_shader e vert ?vh GL_VERTEX_SHADER ?s2 = (r3, s3)"
    by (cases "compile_shader e vert ?vh GL_VERTEX_SHADER ?s2")
  have r3: "r3 = Ok" using assms(2) c1
    by (cases r3) (simp_all add: GlirProgram_set_shaders_def Let_def ph)
  obtain r4 s4 where c2: "compile_shader e frag ?fh GL_FRAGMENT_SHADER s3 = (r4, s4)"
    by (cases "compile_shader e frag ?fh GL_FRAGMENT_SHADER s3")
  have r4: "r4 = Ok" using assms(2) c1 r3 c2
    by (cases r4) (simp_all add: GlirProgram_set_shaders_def Let_def ph)
  have s3: "s3 = ?s2\<lparr>gl_trace := gl_trace ?s2 @ [GlShaderSource ?vh vert, GlCompileShader ?vh,
                                      GlGetShaderParameter ?vh GL_COMPILE_STATUS]\<rparr>"
    using c1 r3 by (simp add: compile_shader_Ok)
  have s4: "s4 = s3\<lparr>gl_trace := gl_trace s3 @ [GlShaderSource ?fh frag, GlCompileShader ?fh,
                                      GlGetShaderParameter ?fh GL_COMPILE_STATUS]\<rparr>"
    using c2 r4 by (simp add: compile_shader_Ok)
  let ?s12 = "gl (GlDeleteShader ?fh) (gl (GlDeleteShader ?vh) (gl (GlDetachShader ?h ?fh)
      (gl (GlDetachShader ?h ?vh) (gl (GlGetProgramParameter ?h GL_LINK_STATUS)
      (gl (GlLinkProgram ?h) (gl (GlAttachShader ?h ?fh) (gl (GlAttachShader ?h ?vh) s4)))))))"
  have tr: "gl_trace ?s12 = set_shaders_calls e ?h vert frag (gl_trace s)"
    by (simp add: s4 s3 gl_def set_shaders_calls_def Let_def)
  have d: "?s12 = s\<lparr>gl_trace := set_shaders_calls e ?h vert frag (gl_trace s)\<rparr>"
    using tr by (simp add: s4 s3 gl_def)
  obtain active s13 where g: "get_active_attributes_and_uniforms e pr ?s12 = (active, s13)"
    by (cases "get_active_attributes_and_uniforms e pr ?s12")
  have res: "p' = upd_program self (\<lambda>q. q\<lparr>unset_variables := active, handles := Map.empty\<rparr>) p
             \<and> s' = s13"
    using assms(2) c1 r3 c2 r4 g
    by (simp add: GlirProgram_set_shaders_def Let_def ph split: if_splits)
  have a: "active = active_variable_names e ?h (set_shaders_calls e ?h vert frag (gl_trace s))"
    using get_active_attributes_and_uniforms_names [of e pr ?s12] g tr by simp
  have b: "s13 = s\<lparr>gl_trace := active_variable_calls e ?h
                                   (set_shaders_calls e ?h vert frag (gl_trace s))\<rparr>"
    using get_active_attributes_and_uniforms_calls [of e pr ?s12] g d by simp
  from res a b show ?thesis by simp
qed

text \<open>
  C5, as amended. After a successful \<^verbatim>\<open>set_shaders\<close> the location cache is empty and the
  set of unset variables is the set \<^verbatim>\<open>_get_active_attributes_and_uniforms\<close> collects after
  the calls that compiled and linked the program: the names of the active attributes and
  uniforms the native API reports, where a name that starts with a word followed by an
  index in brackets stands for the indexed names of all its elements, and a name that is
  one word stands for itself. The sampler table and the attribute-to-buffer table are what
  they were before the call.
\<close>

theorem set_shaders_resets_caches:
  assumes "heap p self = Some (Program pr)"
    and "GlirProgram_set_shaders e self vert frag (p, s) = (Ok, p', s')"
  shows "unset_variables (prog_of p' self) =
           active_variable_names e (prog_handle pr)
             (set_shaders_calls e (prog_handle pr) vert frag (gl_trace s)) \<and>
         handles (prog_of p' self) = Map.empty \<and>
         samplers (prog_of p' self) = samplers pr \<and>
         buffers (prog_of p' self) = buffers pr \<and>
         gl_trace s' = active_variable_calls e (prog_handle pr)
                         (set_shaders_calls e (prog_handle pr) vert frag (gl_trace s)) \<and>
         (nm \<noteq> [] \<and> (\<forall>c\<in>set nm. is_word c) \<and> ds \<noteq> [] \<and> (\<forall>c\<in>set ds. is_digit c) \<longrightarrow>
            active_names (nm @ ''['' @ ds @ '']'', sz, gtype) =
              map (\<lambda>j. nm @ ''['' @ string_of_nat j @ '']'') [0..<nat sz]) \<and>
         ((\<forall>c\<in>set name. is_word c) \<longrightarrow> active_names (name, sz, gtype) = [name])"
proof -
  from set_shaders_Ok_explicit [OF assms]
  have p': "p' = upd_program self
               (\<lambda>q. q\<lparr>unset_variables :=
                         active_variable_names e (prog_handle pr)
                           (set_shaders_calls e (prog_handle pr) vert frag (gl_trace s)),
                       handles := Map.empty\<rparr>) p"
    and s': "s' = s\<lparr>gl_trace := active_variable_calls e (prog_handle pr)
                              (set_shaders_calls e (prog_handle pr) vert frag (gl_trace s))\<rparr>"
    by simp_all
  have u: "unset_variables (prog_of p' self) =
           active_variable_names e (prog_handle pr)
             (set_shaders_calls e (prog_handle pr) vert frag (gl_trace s))"
    and h: "handles (prog_of p' self) = Map.empty"
    and sb: "samplers (prog_of p' self) = samplers pr" "buffers (prog_of p' self) = buffers pr"
    using assms(1) by (simp_all add: p' upd_program_def prog_of_def)
  have t: "gl_trace s' = active_variable_calls e (prog_handle pr)
                         (set_shaders_calls e (prog_handle pr) vert frag (gl_trace s))"
    by (simp add: s')
  show ?thesis
    using u h sb t active_names_array [of nm ds sz gtype] active_names_plain [of name sz gtype]
    by blast
qed

lemmas eval_more_defs =
  GlirProgram_set_attribute_def set_attribute_value_def ATYPEINFO_def ATYPEMAP_def
  active_names_example get_active_answers active_answers_def shader_env_def

lemma active_variable_names_shader_env:
  "active_variable_names shader_env h tr = {''pos'', ''color[0]'', ''color[1]'', ''color[2]''}"
  by (auto simp: active_variable_names_def active_answers_def shader_env_def demo_env_def
      active_names_example Let_def)

theorem set_shaders_resets_caches_witness:
  "(let st = snd (parse shader_env
        [(''CREATE'', 1, Args_kind (Some ''PROGRAM'')),
         (''CREATE'', 2, Args_kind (Some ''Texture2D'')),
         (''CREATE'', 3, Args_kind (Some ''VERTEXBUFFER'')),
         (''SHADERS'', 1, Args_shaders ''v1'' ''f1''),
         (''UNIFORM'', 1, Args_uniform ''tex'' ''sampler2D'' (PInt 2)),
         (''ATTRIBUTE'', 1, Args_attribute ''pos'' ''vec3'' [PInt 3, PInt 12, PInt 0])]
        (GlirParser_init, sys0));
        r = GlirProgram_set_shaders shader_env 0 ''v2'' ''f2'' st
    in handles (prog_of (fst st) 0) ''tex'' = Some 0 \<and>
       handles (prog_of (fst st) 0) ''pos'' = Some 0 \<and>
       unset_variables (prog_of (fst st) 0) = {''color[0]'', ''color[1]'', ''color[2]''} \<and>
       samplers (prog_of (fst st) 0) = [(''tex'', 1, 1)] \<and>
       buffers (prog_of (fst st) 0) = [(''pos'', 2)] \<and>
       fst r = Ok \<and>
       handles (prog_of (fst (snd r)) 0) = Map.empty \<and>
       unset_variables (prog_of (fst (snd r)) 0) = {''pos'', ''color[0]'', ''color[1]'', ''color[2]''} \<and>
       samplers (prog_of (fst (snd r)) 0) = [(''tex'', 1, 1)] \<and>
       buffers (prog_of (fst (snd r)) 0) = [(''pos'', 2)])"
proof -
  define st where "st = snd (parse shader_env
        [(''CREATE'', 1, Args_kind (Some ''PROGRAM'')),
         (''CREATE'', 2, Args_kind (Some ''Texture2D'')),
         (''CREATE'', 3, Args_kind (Some ''VERTEXBUFFER'')),
         (''SHADERS'', 1, Args_shaders ''v1'' ''f1''),
         (''UNIFORM'', 1, Args_uniform ''tex'' ''sampler2D'' (PInt 2)),
         (''ATTRIBUTE'', 1, Args_attribute ''pos'' ''vec3'' [PInt 3, PInt 12, PInt 0])]
        (GlirParser_init, sys0))"
  define pr where "pr = prog_of (fst st) 0"
  define r where "r = GlirProgram_set_shaders shader_env 0 ''v2'' ''f2'' st"
  have heap0: "heap (fst st) 0 = Some (Program pr)"
    unfolding pr_def st_def
    by (simp add: eval_defs eval_more_defs object_activate_numeral)
  have pre: "handles pr ''tex'' = Some 0" "handles pr ''pos'' = Some 0"
    "unset_variables pr = {''color[0]'', ''color[1]'', ''color[2]''}"
    "samplers pr = [(''tex'', 1, 1)]" "buffers pr = [(''pos'', 2)]"
    unfolding pr_def st_def
    by (simp_all add: eval_defs eval_more_defs object_activate_numeral)
  have ok: "fst r = Ok"
    unfolding r_def
    by (cases st) (simp add: GlirProgram_set_shaders_def compile_shader_def shader_env_def
        demo_env_def Let_def split: prod.splits)
  have run: "GlirProgram_set_shaders shader_env 0 ''v2'' ''f2'' (fst st, snd st) =
      (Ok, fst (snd r), snd (snd r))"
    using ok by (simp add: r_def [symmetric] prod_eq_iff)
  note t = set_shaders_resets_caches [OF heap0 run]
  from t have post: "unset_variables (prog_of (fst (snd r)) 0) =
      active_variable_names shader_env (prog_handle pr)
        (set_shaders_calls shader_env (prog_handle pr) ''v2'' ''f2'' (gl_trace (snd st)))"
    "handles (prog_of (fst (snd r)) 0) = Map.empty"
    "samplers (prog_of (fst (snd r)) 0) = samplers pr"
    "buffers (prog_of (fst (snd r)) 0) = buffers pr" by blast+
  show ?thesis
    unfolding Let_def st_def [symmetric] r_def [symmetric] pr_def [symmetric]
    using pre ok post by (simp add: active_variable_names_shader_env)
qed

text \<open>
  A sampler bound before \<^verbatim>\<open>set_shaders\<close> is still bound, with its unit, after it.
\<close>

theorem set_shaders_keeps_bindings_counterexample: "(case parse demo_env
     [(''CREATE'', 1, Args_kind (Some ''PROGRAM'')),
      (''CREATE'', 2, Args_kind (Some ''Texture2D'')),
      (''UNIFORM'', 1, Args_uniform ''tex'' ''sampler2D'' (PInt 2)),
      (''SHADERS'', 1, Args_shaders ''v'' ''f'')]
       (GlirParser_init, sys0) of (r, p, s) \<Rightarrow>
     r = Ok \<and> samplers (prog_of p 0) = [(''tex'', 1, 1)])"
  by (simp add: eval_defs)

subsection \<open>Texture units\<close>

lemma py_min_Min: "xs \<noteq> [] \<Longrightarrow> py_min xs = Min (set xs)"
  by (cases xs) (simp_all add: Min.set_eq_fold [symmetric])

lemma py_max_Max: "xs \<noteq> [] \<Longrightarrow> py_max xs = Max (set xs)"
  by (cases xs) (simp_all add: Max.set_eq_fold [symmetric])

lemma gaps_nonempty:
  assumes ne: "units \<noteq> []" and len: "int (length units) < py_max units - py_min units + 1"
  shows "unit_gaps units \<noteq> []"
proof -
  let ?lo = "py_min units" and ?hi = "py_max units"
  have lo: "?lo = Min (set units)" and hi: "?hi = Max (set units)"
    using ne by (simp_all add: py_min_Min py_max_Max)
  have sub: "set units \<subseteq> {?lo..?hi}" using ne by (auto simp: lo hi)
  have "card (set units) \<le> length units" by (rule card_length)
  moreover have "int (card {?lo..?hi}) = ?hi - ?lo + 1" using len by simp
  ultimately have "card (set units) < card {?lo..?hi}" using len by linarith
  then have "set units \<noteq> {?lo..?hi}" by auto
  then obtain u where u: "u \<in> {?lo..?hi}" "u \<notin> set units" using sub by blast
  have "?lo \<in> set units" "?hi \<in> set units" using ne by (simp_all add: lo hi)
  then have "u \<noteq> ?lo" "u \<noteq> ?hi" using u by auto
  then have "u \<in> set (unit_gaps units)" using u by (auto simp: unit_gaps_def)
  then show ?thesis by auto
qed

lemma get_free_unit_unused:
  assumes "valid_pop pop"
  shows "\<exists>r. get_free_unit pop units = Inr r \<and> r \<notin> set units"
proof (cases "units = []")
  case True then show ?thesis by (simp add: get_free_unit_def)
next
  case ne: False
  have lo: "py_min units = Min (set units)" and hi: "py_max units = Max (set units)"
    using ne by (simp_all add: py_min_Min py_max_Max)
  show ?thesis
  proof (cases "py_min units > 1")
    case True
    have "py_min units - 1 \<notin> set units"
    proof
      assume "py_min units - 1 \<in> set units"
      then have "Min (set units) \<le> py_min units - 1" by (intro Min_le) simp_all
      then show False using lo by linarith
    qed
    then show ?thesis using ne True by (simp add: get_free_unit_def Let_def)
  next
    case nlo: False
    show ?thesis
    proof (cases "int (length units) < py_max units - py_min units + 1")
      case True
      then have g: "unit_gaps units \<noteq> []" using ne by (rule gaps_nonempty [rotated])
      then have "pop (unit_gaps units) \<in> set (unit_gaps units)"
        using assms by (simp add: valid_pop_def)
      then have "pop (unit_gaps units) \<notin> set units" by (simp add: unit_gaps_def)
      then show ?thesis using ne nlo True g by (simp add: get_free_unit_def Let_def)
    next
      case False
      have "py_max units + 1 \<notin> set units"
      proof
        assume "py_max units + 1 \<in> set units"
        then have "py_max units + 1 \<le> Max (set units)" by (intro Max_ge) simp_all
        then show False using hi by linarith
      qed
      then show ?thesis using ne nlo False by (simp add: get_free_unit_def Let_def)
    qed
  qed
qed

lemma get_free_unit_ge1:
  assumes "valid_pop pop" "\<forall>u\<in>set units. 1 \<le> u" "get_free_unit pop units = Inr r"
  shows "1 \<le> r"
proof (cases "units = []")
  case True then show ?thesis using assms by (simp add: get_free_unit_def)
next
  case ne: False
  have lo: "py_min units = Min (set units)" and hi: "py_max units = Max (set units)"
    using ne by (simp_all add: py_min_Min py_max_Max)
  have lo1: "1 \<le> py_min units" using assms(2) ne by (simp add: lo)
  have hi1: "1 \<le> py_max units" using assms(2) ne by (simp add: hi)   
  show ?thesis
  proof (cases "py_min units > 1")
    case True then show ?thesis using assms(3) ne by (simp add: get_free_unit_def Let_def)
  next
    case nlo: False
    show ?thesis
    proof (cases "int (length units) < py_max units - py_min units + 1")
      case True
      then have g: "unit_gaps units \<noteq> []" using ne by (rule gaps_nonempty [rotated])
      then have "pop (unit_gaps units) \<in> set (unit_gaps units)"
        using assms(1) by (simp add: valid_pop_def)
      then have "py_min units + 1 \<le> pop (unit_gaps units)" by (simp add: unit_gaps_def)
      then show ?thesis using ne nlo True g assms(3) lo1 by (simp add: get_free_unit_def Let_def)
    next
      case False
      then show ?thesis using ne nlo assms(3) hi1 by (simp add: get_free_unit_def Let_def)
    qed
  qed
qed

lemma spec_lowest_unused_unit_least:
  "1 \<le> spec_lowest_unused_unit units \<and> spec_lowest_unused_unit units \<notin> set units \<and>
   (\<forall>u. 1 \<le> u \<and> u \<notin> set units \<longrightarrow> spec_lowest_unused_unit units \<le> u)"
proof -
  let ?n = "int (length units) + 1"
  let ?f = "filter (\<lambda>u. u \<notin> set units) [1 .. ?n]"
  have "card (set units) \<le> length units" by (rule card_length)
  then have "card (set units) < card {1..?n}" by simp
  then have "\<not> {1..?n} \<subseteq> set units"
    by (metis List.finite_set card_mono not_le)
  then have ne: "?f \<noteq> []" by (auto simp: filter_empty_conv)
  then have hd_in: "hd ?f \<in> set ?f" by (rule hd_in_set)
  have srt: "sorted ?f" by (simp add: sorted_wrt_filter)
  have least: "\<forall>x\<in>set ?f. hd ?f \<le> x"
    using srt ne by (cases ?f) auto
  have a: "1 \<le> hd ?f" "hd ?f \<notin> set units" "hd ?f \<le> ?n" using hd_in by auto
  have b: "hd ?f \<le> u" if "1 \<le> u" "u \<notin> set units" for u
  proof (cases "u \<le> ?n")
    case True then have "u \<in> set ?f" using that by simp
    then show ?thesis using least by blast
  next
    case False then show ?thesis using a(3) by linarith
  qed
  show ?thesis unfolding spec_lowest_unused_unit_def using a b by blast
qed

lemma unit_gaps_between:
  "r \<in> set (unit_gaps units) \<Longrightarrow> py_min units < r \<and> r < py_max units \<and> r \<notin> set units"
  by (auto simp: unit_gaps_def)

text \<open>
  C9, as amended. Whatever element the runtime pops, \<^verbatim>\<open>_get_free_unit\<close> returns (it never
  raises) a unit that is not in the list, which is at least 1 when every listed unit is.
  It returns 1 for the empty list; one below the smallest listed unit when that exceeds 1,
  which is not the lowest unused unit unless the smallest is 2; otherwise, when the list is
  shorter than the span from the smallest to the largest unit, the popped element of the
  set of unused units strictly between the two; otherwise one above the largest. The three
  documented examples hold.
\<close>

theorem get_free_unit_policy:
  assumes "valid_pop pop"
  shows "(\<exists>r. get_free_unit pop units = Inr r \<and> r \<notin> set units \<and>
            ((\<forall>u\<in>set units. 1 \<le> u) \<longrightarrow> 1 \<le> r) \<and>
            (units = [] \<longrightarrow> r = 1) \<and>
            (units \<noteq> [] \<and> 1 < Min (set units) \<longrightarrow> r = Min (set units) - 1) \<and>
            (units \<noteq> [] \<and> Min (set units) \<le> 1 \<and>
             int (length units) < Max (set units) - Min (set units) + 1 \<longrightarrow>
               r = pop (unit_gaps units) \<and> Min (set units) < r \<and> r < Max (set units)) \<and>
            (units \<noteq> [] \<and> Min (set units) \<le> 1 \<and>
             Max (set units) - Min (set units) + 1 \<le> int (length units) \<longrightarrow>
               r = Max (set units) + 1)) \<and>
         get_free_unit pop [] = Inr 1 \<and>
         get_free_unit pop [1, 2, 4] = Inr 3 \<and>
         get_free_unit pop [2, 3] = Inr 1"
proof -
  obtain r where r: "get_free_unit pop units = Inr r" "r \<notin> set units"
    using get_free_unit_unused [OF assms] by blast
  have ge: "(\<forall>u\<in>set units. 1 \<le> u) \<longrightarrow> 1 \<le> r"
    using get_free_unit_ge1 [OF assms _ r(1)] by blast
  have empty: "units = [] \<longrightarrow> r = 1"
    using r(1) by (auto simp: get_free_unit_def)
  have below: "units \<noteq> [] \<and> 1 < Min (set units) \<longrightarrow> r = Min (set units) - 1"
  proof (intro impI, elim conjE)
    assume ne: "units \<noteq> []" and lo: "1 < Min (set units)"
    have "1 < py_min units" using lo py_min_Min [OF ne] by linarith
    then have "r = py_min units - 1"
      using r(1) ne by (simp add: get_free_unit_def Let_def)
    then show "r = Min (set units) - 1" using py_min_Min [OF ne] by simp
  qed
  have gap: "units \<noteq> [] \<and> Min (set units) \<le> 1 \<and>
             int (length units) < Max (set units) - Min (set units) + 1 \<longrightarrow>
               r = pop (unit_gaps units) \<and> Min (set units) < r \<and> r < Max (set units)"
  proof (intro impI, elim conjE)
    assume ne: "units \<noteq> []" and lo: "Min (set units) \<le> 1"
      and len: "int (length units) < Max (set units) - Min (set units) + 1"
    have len': "int (length units) < py_max units - py_min units + 1"
      using len ne by (simp add: py_min_Min py_max_Max)
    have g: "unit_gaps units \<noteq> []" using ne len' by (rule gaps_nonempty)
    then have "pop (unit_gaps units) \<in> set (unit_gaps units)"
      using assms by (simp add: valid_pop_def)
    then have b: "py_min units < pop (unit_gaps units) \<and> pop (unit_gaps units) < py_max units"
      using unit_gaps_between by blast
    have nlo: "\<not> 1 < py_min units" using lo py_min_Min [OF ne] by linarith
    have "r = pop (unit_gaps units)"
      using r(1) ne nlo len' g by (simp add: get_free_unit_def Let_def)
    with b ne show "r = pop (unit_gaps units) \<and> Min (set units) < r \<and> r < Max (set units)"
      by (simp add: py_min_Min py_max_Max)
  qed
  have above: "units \<noteq> [] \<and> Min (set units) \<le> 1 \<and>
             Max (set units) - Min (set units) + 1 \<le> int (length units) \<longrightarrow>
               r = Max (set units) + 1"
  proof (intro impI, elim conjE)
    assume ne: "units \<noteq> []" and lo: "Min (set units) \<le> 1"
      and len: "Max (set units) - Min (set units) + 1 \<le> int (length units)"
    have nlo: "\<not> 1 < py_min units" using lo py_min_Min [OF ne] by linarith
    have nlen: "\<not> int (length units) < py_max units - py_min units + 1"
      using len py_min_Min [OF ne] py_max_Max [OF ne] by linarith
    have "r = py_max units + 1"
      using r(1) ne nlo nlen by (simp add: get_free_unit_def Let_def)
    then show "r = Max (set units) + 1" using py_max_Max [OF ne] by simp
  qed
  have "pop [3] \<in> set [3]" using assms unfolding valid_pop_def by blast
  then have e2: "get_free_unit pop [1, 2, 4] = Inr 3"
    by (simp add: get_free_unit_def unit_gaps_def upto.simps)
  have e1: "get_free_unit pop [] = Inr 1" and e3: "get_free_unit pop [2, 3] = Inr 1"
    by (simp_all add: get_free_unit_def)
  show ?thesis using r ge empty below gap above e1 e2 e3 by blast
qed

theorem get_free_unit_policy_witness:
  "valid_pop hd \<and>
   get_free_unit hd [] = Inr 1 \<and>
   get_free_unit hd [2, 3] = Inr 1 \<and>
   get_free_unit hd [1, 5] = Inr 2 \<and>
   get_free_unit hd [1, 2, 4] = Inr 3 \<and>
   get_free_unit hd [1, 2, 3] = Inr 4"
proof -
  have v: "valid_pop hd" by (simp add: valid_pop_def)
  have g: "unit_gaps [1, 5] = [2, 3, 4]" by (simp add: unit_gaps_def upto.simps)
  have a: "get_free_unit hd [2, 3] = Inr 1"
    using get_free_unit_policy [OF v, of "[2, 3]"] by auto
  have b: "get_free_unit hd [1, 5] = Inr 2"
    using get_free_unit_policy [OF v, of "[1, 5]"] g by auto
  have c: "get_free_unit hd [1, 2, 3] = Inr 4"
    using get_free_unit_policy [OF v, of "[1, 2, 3]"] by auto
  have d: "get_free_unit hd [] = Inr 1" "get_free_unit hd [1, 2, 4] = Inr 3"
    using get_free_unit_policy [OF v, of "[]"] by blast+
  from v a b c d show ?thesis by blast
qed

text \<open>
  With units 3 and 4 in use the code returns 2, while the lowest unused unit is 1.
\<close>

theorem get_free_unit_lowest_counterexample:
  "get_free_unit hd [3, 4] = Inr 2 \<and> spec_lowest_unused_unit [3, 4] = 1"
  by (simp add: get_free_unit_def spec_lowest_unused_unit_def upto.simps)








lemma dict_set_absent:
  "k \<notin> fst ` set d \<Longrightarrow> dict_set k v d = d @ [(k, v)]"
  by (induction d) auto

lemma dict_pop_absent: "k \<notin> fst ` set (dict_pop k d)"
  by (auto simp: dict_pop_def)

lemma dict_set_pop:
  "dict_set k v (dict_pop k d) = dict_pop k d @ [(k, v)]"
  by (rule dict_set_absent) (rule dict_pop_absent)


















lemma set_uniform_value_sampler:
  assumes pop: "valid_pop (set_pop e)" and self: "heap p self = Some (Program pr)"
    and ty: "type = ''sampler2D'' \<or> type = ''sampler3D''"
    and run: "set_uniform_value e self name type val handle (p, s) = (Ok, p', s')"
  shows "\<exists>tex unit. samplers (prog_of p' self) = dict_pop name (samplers pr) @ [(name, tex, unit)] \<and>
           unit \<notin> set (map (\<lambda>s. snd (snd s)) (dict_pop name (samplers pr)))"
proof -
  have ut: "UTYPEMAP type = Some ''glUniform1i''" using ty by (auto simp: UTYPEMAP_def)
  have tk: "take 3 type \<noteq> ''mat''" "take 7 type = ''sampler''" using ty by auto
  obtain r1 p1 s1 where u: "use_this_program self (p, s) = (r1, p1, s1)"
    by (cases "use_this_program self (p, s)")
  have h1: "heap p1 = heap p"
    using u by (auto simp: use_this_program_def split: option.splits if_splits)
  let ?popped = "dict_pop name (samplers pr)"
  let ?units = "map (\<lambda>s. snd (snd s)) ?popped"
  obtain unit where f: "get_free_unit (set_pop e) ?units = Inr unit" "unit \<notin> set ?units"
    using get_free_unit_unused [OF pop, of ?units] by blast
  have pr1: "prog_of p1 self = pr" using self h1 by (simp add: prog_of_def)
  show ?thesis
    using run ut tk u f self h1 pr1
    by (auto simp: set_uniform_value_def Let_def dict_set_pop upd_program_def prog_of_def
        split: outcome.splits py_val.splits option.splits)
qed





lemma sampler_units_example:
  "sampler_units (fst (snd (parse demo_env
     [(''CREATE'', 1, Args_kind (Some ''PROGRAM'')),
      (''CREATE'', 2, Args_kind (Some ''Texture2D'')),
      (''UNIFORM'', 1, Args_uniform ''a'' ''sampler2D'' (PInt 2)),
      (''UNIFORM'', 1, Args_uniform ''b'' ''sampler2D'' (PInt 2)),
      (''UNIFORM'', 1, Args_uniform ''a'' ''sampler2D'' (PInt 2))] (GlirParser_init, sys0)))) 0
    = [2, 1]"
  by (simp add: eval_defs sampler_units_def)

subsection \<open>Buffers\<close>

text \<open>
  C7, as amended. Two calls of \<^verbatim>\<open>set_size(nbytes)\<close> in a row: when nbytes differs from the
  buffer's current size, the first call binds the buffer, issues the one native allocation
  and records nbytes; when nbytes is already the current size, the first call issues no
  native call either. In both cases the second call changes nothing and issues no call.
\<close>

theorem GlirBuffer_set_size_twice:
  "(let (b1, s1) = GlirBuffer_set_size b nbytes s;
        (b2, s2) = GlirBuffer_set_size b1 nbytes s1
    in buffer_size b1 = nbytes \<and> b2 = b1 \<and> s2 = s1 \<and> diags s1 = diags s \<and>
       gl_trace s1 =
         (if nbytes \<noteq> buffer_size b
          then gl_trace s @ [GlBindBuffer (buf_target b) (buf_handle b),
                             GlBufferData_size (buf_target b) nbytes GL_DYNAMIC_DRAW]
          else gl_trace s))"
  by (simp add: GlirBuffer_set_size_def gl_def Let_def)

text \<open>
  A buffer as \<^verbatim>\<open>__init__\<close> leaves it has size 0: two calls of \<^verbatim>\<open>set_size(0)\<close> make no
  native allocation at all, not one.
\<close>

theorem GlirBuffer_set_size_twice_counterexample:
  "(let (b0, s0) = GlirVertexBuffer_init demo_env sys0;
        (b1, s1) = GlirBuffer_set_size b0 0 s0;
        (b2, s2) = GlirBuffer_set_size b1 0 s1
    in gl_trace s2 = [GlCreateBuffer])"
  by (simp add: GlirVertexBuffer_init_def GlirBuffer_init_def GlirBuffer_set_size_def
      gl_def sys0_def demo_env_def Let_def)

subsection \<open>Textures\<close>

lemma GlirTexture2D_set_size_always:
  "tex_shape_format t = SF_int n \<Longrightarrow>
   GlirTexture2D_set_size t shape format s =
     (t\<lparr>tex_format := Some format\<rparr>,
      gl (GlTexImage2D (tex_target t) 0 format format GL_BYTE (take 2 shape)) s)"
  by (simp add: GlirTexture2D_set_size_def)

lemma GlirTexture3D_set_size_always:
  "tex_shape_format t = SF_int n \<Longrightarrow>
   GlirTexture3D_set_size t shape format e s =
     (let (r, s1) = glTexImage3D e (tex_target t) 0 format format GL_BYTE (take 3 shape) s
      in (r, t\<lparr>tex_format := Some format\<rparr>, s1))"
  by (simp add: GlirTexture3D_set_size_def)

lemma set_size_keeps_shape_format:
  "tex_shape_format (fst (GlirTexture2D_set_size t shape format s)) = tex_shape_format t"
  "tex_shape_format (fst (snd (GlirTexture3D_set_size t shape format e s))) = tex_shape_format t"
  by (simp_all add: GlirTexture2D_set_size_def GlirTexture3D_set_size_def split: prod.splits)

text \<open>
  C6. The claim does not hold of the code: \<^verbatim>\<open>set_size\<close> compares \<^verbatim>\<open>(shape, format)\<close> with
  \<^verbatim>\<open>_shape_format\<close> and never stores the pair there, so the comparison is with 0 every
  time. Two SIZE commands with the same shape and format make two native allocations.
\<close>

theorem texture_set_size_repeats_allocation: "(case parse demo_env
     [(''CREATE'', 1, Args_kind (Some ''Texture2D'')),
      (''SIZE'', 1, Args_shape_format [4, 4] 6407),
      (''SIZE'', 1, Args_shape_format [4, 4] 6407)] (GlirParser_init, sys0) of (r, p, s) \<Rightarrow>
     r = Ok \<and> 
     gl_trace s = [GlCreateTexture, GlTexImage2D (Some GL_TEXTURE_2D) 0 6407 6407 GL_BYTE [4, 4],
        GlTexImage2D (Some GL_TEXTURE_2D) 0 6407 6407 GL_BYTE [4, 4]])"
  by (simp add: eval_defs)

lemma GlirTexture3D_set_data_raises:
  "GlirTexture3D_set_data t [z, y, x] data e s = (Raised AttributeError, s)"
  by (simp add: GlirTexture3D_set_data_def GlirTexture3D_self_dtype_def)

lemma GlirTexture2D_set_data_types:
  assumes "tex_format t = Some format" "2 \<le> length (arr_shape data)"
  shows "case GlirTexture_types (arr_dtype data) of
           None \<Rightarrow> fst (GlirTexture2D_set_data t [y, x] data s) = Raised ValueError \<and>
                   gl_trace (snd (GlirTexture2D_set_data t [y, x] data s)) = gl_trace s
         | Some gt \<Rightarrow> fst (GlirTexture2D_set_data t [y, x] data s) = Ok \<and>
                   GlTexSubImage2D (tex_target t) 0 x y format gt data
                     \<in> set (gl_trace (snd (GlirTexture2D_set_data t [y, x] data s)))"
  using assms
  by (auto simp: GlirTexture2D_set_data_def Let_def gl_def emit_def split: option.splits)

text \<open>
  C10. The claim does not hold of the code for 3D textures: \<^verbatim>\<open>GlirTexture3D.set_data\<close>
  reads \<^verbatim>\<open>self.dtype\<close> where the 2D method reads \<^verbatim>\<open>data.dtype\<close>, and raises AttributeError
  for every payload. A DATA command with unsigned 8-bit elements on a sized 3D texture
  raises, and no upload is made.
\<close>

theorem texture3D_set_data_raises: "(case parse demo_env
     [(''CREATE'', 1, Args_kind (Some ''Texture3D'')),
      (''SIZE'', 1, Args_shape_format [2, 2, 2] 6407),
      (''DATA'', 1, Args_texture_data [0, 0, 0] \<lparr>arr_dtype = np_uint8, arr_shape = [2, 2, 2, 3]\<rparr>)]
       (GlirParser_init, sys0) of (r, p, s) \<Rightarrow>
     r = Raised AttributeError \<and> 
     gl_trace s = [GlCreateTexture, GlTexImage3D (Some GL_TEXTURE_3D) 0 6407 6407 GL_BYTE [2, 2, 2]])"
  by (simp add: eval_defs)

end
